theory Spec2Isabelle
  imports Complex_Main
begin

section \<open>Risk classification\<close>

text \<open>
  The two classifiers of the repository. Volatility, maximum drawdown and VaR are Python
  floats; they are taken here as the real numbers they denote, and a decimal literal of the
  source as the decimal it is written as. Comparisons of floats do not raise, so the
  \<open>except\<close> branches of both functions (which return "Unknown" and "MEDIUM") are not
  reachable on these inputs and have no counterpart below.
\<close>

text \<open>
  \<open>MCPDatabaseServer._classify_risk\<close> (mcp_servers/db_server.py): a score accumulated
  by three \<open>if/elif\<close> chains, then mapped to a label.
\<close>

definition classify_risk :: "real \<Rightarrow> real \<Rightarrow> real \<Rightarrow> string" where
  "classify_risk volatility max_drawdown var_95 =
     (let risk_score = (0::nat);
          risk_score = (if volatility > 0.40 then risk_score + 3
                        else if volatility > 0.25 then risk_score + 2
                        else if volatility > 0.15 then risk_score + 1
                        else risk_score);
          risk_score = (if max_drawdown < -0.30 then risk_score + 3
                        else if max_drawdown < -0.20 then risk_score + 2
                        else if max_drawdown < -0.10 then risk_score + 1
                        else risk_score);
          risk_score = (if var_95 < -0.05 then risk_score + 3
                        else if var_95 < -0.03 then risk_score + 2
                        else if var_95 < -0.02 then risk_score + 1
                        else risk_score)
      in if risk_score \<ge> 7 then ''Very High''
         else if risk_score \<ge> 5 then ''High''
         else if risk_score \<ge> 3 then ''Medium''
         else if risk_score \<ge> 1 then ''Low''
         else ''Very Low'')"

text \<open>
  \<open>RiskAgent._classify_risk_level\<close> (agents/risk_agent.py): counts of indicators beyond
  a high threshold and of indicators in a medium band, then one of three labels.
\<close>

definition classify_risk_level :: "real \<Rightarrow> real \<Rightarrow> real \<Rightarrow> string" where
  "classify_risk_level volatility max_drawdown var_95 =
     (let high_vol_threshold = (0.3::real);
          high_drawdown_threshold = (-0.2::real);
          high_var_threshold = (-0.03::real);
          medium_vol_threshold = (0.2::real);
          medium_drawdown_threshold = (-0.1::real);
          medium_var_threshold = (-0.02::real);
          high_risk_count = (0::nat);
          high_risk_count = (if volatility > high_vol_threshold
                             then high_risk_count + 1 else high_risk_count);
          high_risk_count = (if max_drawdown < high_drawdown_threshold
                             then high_risk_count + 1 else high_risk_count);
          high_risk_count = (if var_95 < high_var_threshold
                             then high_risk_count + 1 else high_risk_count);
          medium_risk_count = (0::nat);
          medium_risk_count = (if medium_vol_threshold < volatility
                                  \<and> volatility \<le> high_vol_threshold
                               then medium_risk_count + 1 else medium_risk_count);
          medium_risk_count = (if medium_drawdown_threshold < max_drawdown
                                  \<and> max_drawdown \<le> high_drawdown_threshold
                               then medium_risk_count + 1 else medium_risk_count);
          medium_risk_count = (if medium_var_threshold < var_95
                                  \<and> var_95 \<le> high_var_threshold
                               then medium_risk_count + 1 else medium_risk_count)
      in if high_risk_count \<ge> 2 then ''HIGH''
         else if high_risk_count \<ge> 1 \<or> medium_risk_count \<ge> 2 then ''MEDIUM''
         else ''LOW'')"

text \<open>
  The scoring as the specification words it: three independent sub-scores in 0..3, their
  sum in 0..9, and the label of the sum.
\<close>

definition spec_volatility_score :: "real \<Rightarrow> nat" where
  "spec_volatility_score v = (if v > 0.40 then 3 else if v > 0.25 then 2 else if v > 0.15 then 1 else 0)"

definition spec_drawdown_score :: "real \<Rightarrow> nat" where
  "spec_drawdown_score d = (if d < -0.30 then 3 else if d < -0.20 then 2 else if d < -0.10 then 1 else 0)"

definition spec_var_score :: "real \<Rightarrow> nat" where
  "spec_var_score r = (if r < -0.05 then 3 else if r < -0.03 then 2 else if r < -0.02 then 1 else 0)"

definition spec_risk_score :: "real \<Rightarrow> real \<Rightarrow> real \<Rightarrow> nat" where
  "spec_risk_score v d r = spec_volatility_score v + spec_drawdown_score d + spec_var_score r"

definition spec_risk_label :: "nat \<Rightarrow> string" where
  "spec_risk_label s =
     (if s \<ge> 7 then ''Very High'' else if s \<ge> 5 then ''High''
      else if s \<ge> 3 then ''Medium'' else if s \<ge> 1 then ''Low'' else ''Very Low'')"

text \<open>
  The rule of the direct path in words: the number of indicators beyond their high
  threshold, and the number of indicators in their medium range, between the medium and
  the high threshold.
\<close>

definition high_indicators :: "real \<Rightarrow> real \<Rightarrow> real \<Rightarrow> nat" where
  "high_indicators v d r =
     (if v > 0.3 then 1 else 0) + (if d < -0.2 then 1 else 0) + (if r < -0.03 then 1 else 0)"

definition medium_indicators :: "real \<Rightarrow> real \<Rightarrow> real \<Rightarrow> nat" where
  "medium_indicators v d r =
     (if 0.2 < v \<and> v \<le> 0.3 then 1 else 0) + (if -0.2 \<le> d \<and> d < -0.1 then 1 else 0)
       + (if -0.03 \<le> r \<and> r < -0.02 then 1 else 0)"

section \<open>Returns\<close>

text \<open>
  A pandas series holds IEEE doubles. A finite value is taken as the real number it
  denotes; the three values that are not finite are kept apart, since \<open>dropna\<close> tells
  them apart.
\<close>

datatype fval = Val real | PInf | NInf | NaN

text \<open>
  The quotient \<open>cur / prev - 1\<close> of two finite closes as pandas computes it: dividing by
  zero raises nothing, it gives an infinity, and \<open>0 / 0\<close> gives NaN.
\<close>

definition change :: "real \<Rightarrow> real \<Rightarrow> fval" where
  "change prev cur =
     (if prev \<noteq> 0 then Val (cur / prev - 1)
      else if cur > 0 then PInf
      else if cur < 0 then NInf
      else NaN)"

text \<open>
  \<open>Series.pct_change()\<close> on a column of finite closes: NaN in the first row, then the
  change from each row to the next.
\<close>

fun changes :: "real \<Rightarrow> real list \<Rightarrow> fval list" where
  "changes prev [] = []"
| "changes prev (c # cs) = change prev c # changes c cs"

fun pct_change :: "real list \<Rightarrow> fval list" where
  "pct_change [] = []"
| "pct_change (c # cs) = NaN # changes c cs"

text \<open>\<open>Series.dropna()\<close>: the rows that are NaN are removed, infinities stay.\<close>

definition dropna :: "fval list \<Rightarrow> fval list" where
  "dropna xs = filter (\<lambda>v. v \<noteq> NaN) xs"

text \<open>
  The returns series of both paths: \<open>df['close'].pct_change()\<close> followed by
  \<open>.dropna()\<close> (risk_agent.py lines 83--84, db_server.py lines 416--417).
\<close>

definition daily_returns :: "real list \<Rightarrow> fval list" where
  "daily_returns closes = dropna (pct_change closes)"

text \<open>The number of rows whose own close and prior close are both zero.\<close>

fun zero_pairs_from :: "real \<Rightarrow> real list \<Rightarrow> nat" where
  "zero_pairs_from prev [] = 0"
| "zero_pairs_from prev (c # cs) =
     (if prev = 0 \<and> c = 0 then 1 else 0) + zero_pairs_from c cs"

fun zero_pairs :: "real list \<Rightarrow> nat" where
  "zero_pairs [] = 0"
| "zero_pairs (c # cs) = zero_pairs_from c cs"

text \<open>The number of rows with a zero prior close and a nonzero close of their own.\<close>

fun zero_priors_from :: "real \<Rightarrow> real list \<Rightarrow> nat" where
  "zero_priors_from prev [] = 0"
| "zero_priors_from prev (c # cs) =
     (if prev = 0 \<and> c \<noteq> 0 then 1 else 0) + zero_priors_from c cs"

fun zero_priors :: "real list \<Rightarrow> nat" where
  "zero_priors [] = 0"
| "zero_priors (c # cs) = zero_priors_from c cs"

definition infinite_val :: "fval \<Rightarrow> bool" where
  "infinite_val v = (v = PInf \<or> v = NInf)"

section \<open>Statistics\<close>

text \<open>
  The numpy and pandas reductions the two modules call, on finite values. Rounding of the
  floating-point operations is not tracked: a finite double stands for the real it denotes
  and the operations are the exact ones. Where the float computation leaves the finite
  values (an infinity among the returns, an infinite or NaN drawdown) the caller keeps such
  an outcome apart.
\<close>

fun finite_vals :: "fval list \<Rightarrow> real list option" where
  "finite_vals [] = Some []"
| "finite_vals (Val x # vs) = map_option ((#) x) (finite_vals vs)"
| "finite_vals (v # vs) = None"

definition mean :: "real list \<Rightarrow> real" where
  "mean xs = sum_list xs / real (length xs)"

text \<open>
  Sum of squared deviations over \<open>n - ddof\<close>: \<open>Series.std()\<close> of pandas has
  \<open>ddof = 1\<close>, \<open>np.var\<close> has \<open>ddof = 0\<close>.
\<close>

definition variance :: "nat \<Rightarrow> real list \<Rightarrow> real" where
  "variance ddof xs =
     sum_list (map (\<lambda>x. (x - mean xs) * (x - mean xs)) xs) / (real (length xs) - real ddof)"

definition std :: "real list \<Rightarrow> real" where
  "std xs = sqrt (variance 1 xs)"

text \<open>\<open>np.cov(x, y)[0][1]\<close>: the sample covariance, with divisor \<open>n - 1\<close>.\<close>

definition cov :: "real list \<Rightarrow> real list \<Rightarrow> real" where
  "cov xs ys =
     sum_list (map (\<lambda>(x, y). (x - mean xs) * (y - mean ys)) (zip xs ys)) / (real (length xs) - 1)"

text \<open>
  \<open>np.percentile(a, q)\<close> with the default linear interpolation, for a non-empty \<open>a\<close>
  (every call site has checked the length before).
\<close>

definition percentile :: "real list \<Rightarrow> real \<Rightarrow> real" where
  "percentile xs q =
     (let s = sort xs;
          n = length xs;
          pos = (real n - 1) * q / 100;
          lo = nat \<lfloor>pos\<rfloor>;
          hi = min (lo + 1) (n - 1);
          frac = pos - real lo
      in s ! lo + frac * (s ! hi - s ! lo))"

text \<open>\<open>(1 + returns).cumprod()\<close> and \<open>.expanding().max()\<close>.\<close>

fun cumprod_from :: "real \<Rightarrow> real list \<Rightarrow> real list" where
  "cumprod_from acc [] = []"
| "cumprod_from acc (x # xs) = (acc * x) # cumprod_from (acc * x) xs"

definition cumprod :: "real list \<Rightarrow> real list" where
  "cumprod xs = cumprod_from 1 xs"

fun expanding_max_from :: "real \<Rightarrow> real list \<Rightarrow> real list" where
  "expanding_max_from m [] = []"
| "expanding_max_from m (x # xs) = max m x # expanding_max_from (max m x) xs"

fun expanding_max :: "real list \<Rightarrow> real list" where
  "expanding_max [] = []"
| "expanding_max (x # xs) = x # expanding_max_from x xs"

text \<open>
  A quotient of two finite entries of a series, as pandas computes it: a zero divisor
  raises nothing, it gives an infinity, and \<open>0 / 0\<close> gives NaN.
\<close>

definition quotient :: "real \<Rightarrow> real \<Rightarrow> fval" where
  "quotient x y =
     (if y \<noteq> 0 then Val (x / y)
      else if x > 0 then PInf
      else if x < 0 then NInf
      else NaN)"

text \<open>
  \<open>Series.min()\<close>: the least entry, NaN entries skipped; NaN when nothing is left.
\<close>

fun fmin :: "fval \<Rightarrow> fval \<Rightarrow> fval" where
  "fmin NaN y = y"
| "fmin x NaN = x"
| "fmin NInf y = NInf"
| "fmin x NInf = NInf"
| "fmin PInf y = y"
| "fmin x PInf = x"
| "fmin (Val a) (Val b) = Val (min a b)"

definition series_min :: "fval list \<Rightarrow> fval" where
  "series_min xs = fold fmin xs NaN"

text \<open>
  Maximum drawdown of a returns series of finite entries: the least of
  \<open>(cumulative - rolling_max) / rolling_max\<close>. A running maximum of zero makes a
  quotient infinite or NaN; \<open>min()\<close> skips the NaN ones.
\<close>

definition max_drawdown_of :: "real list \<Rightarrow> fval" where
  "max_drawdown_of returns =
     (let cumulative = cumprod (map (\<lambda>r. 1 + r) returns);
          rolling_max = expanding_max cumulative;
          drawdown = map (\<lambda>(c, m). quotient (c - m) m) (zip cumulative rolling_max)
      in series_min drawdown)"

text \<open>Python's \<open>round(x, 4)\<close>: to the nearest multiple of 0.0001, a tie to the even one.\<close>

definition round_half_even :: "real \<Rightarrow> int" where
  "round_half_even x =
     (let f = \<lfloor>x\<rfloor>; d = x - of_int f
      in if d < 1 / 2 then f else if d > 1 / 2 then f + 1 else if even f then f else f + 1)"

definition round4 :: "real \<Rightarrow> real" where
  "round4 x = of_int (round_half_even (x * 10000)) / 10000"

section \<open>Price bars\<close>

text \<open>
  A row of a price DataFrame (yfinance history, or the rows read back from MongoDB).
  \<open>Date\<close> is the row's timestamp in seconds; prices are finite; a \<open>Volume\<close> of
  \<open>None\<close> is a NaN volume.
\<close>

record bar =
  Date :: int
  Open :: real
  High :: real
  Low :: real
  Close :: real
  Volume :: "int option"

section \<open>Risk metrics of the DB server\<close>

record db_metrics =
  db_volatility :: real
  db_annualized_return :: real
  db_sharpe_ratio :: real
  db_var_95 :: real
  db_var_99 :: real
  db_max_drawdown :: real
  db_beta :: "real option"
  db_risk_level :: string
  db_data_points :: nat
  db_last_price :: real
  db_price_change :: real

text \<open>
  What \<open>MCPDatabaseServer._calculate_risk_metrics\<close> returns: the dictionary
  \<open>{"error": msg}\<close>, or the dictionary of metrics. \<open>CalcNonFinite n\<close> is the
  dictionary of metrics of \<open>n\<close> returns whose numeric entries are infinities or NaNs;
  those entries are not tracked.
\<close>

datatype db_calc =
    is_CalcError: CalcError string
  | is_CalcMetrics: CalcMetrics (the_metrics: db_metrics)
  | is_CalcNonFinite: CalcNonFinite nat

text \<open>\<open>MCPDatabaseServer._calculate_beta_simplified\<close>: no benchmark series is read.\<close>

definition calculate_beta_simplified :: "real list \<Rightarrow> real option" where
  "calculate_beta_simplified returns =
     (let market_volatility = (0.20::real);
          correlation_with_market = (0.7::real);
          stock_volatility = std returns * sqrt 252;
          beta = correlation_with_market * (stock_volatility / market_volatility)
      in Some beta)"

text \<open>
  \<open>MCPDatabaseServer._calculate_risk_metrics\<close>. \<open>float(beta) if beta else None\<close>
  turns a beta of zero into \<open>None\<close>.
\<close>

definition db_calculate_risk_metrics :: "bar list \<Rightarrow> db_calc" where
  "db_calculate_risk_metrics df =
     (let returns = daily_returns (map Close df)
      in if length returns < 2 then CalcError ''Insufficient data for risk calculation''
         else
           (case finite_vals returns of
              None \<Rightarrow> CalcNonFinite (length returns)
            | Some rs \<Rightarrow>
               (case max_drawdown_of rs of
                  Val max_drawdown \<Rightarrow>
                   (let volatility = std rs * sqrt 252;
                        mean_return = mean rs * 252;
                        risk_free_rate = (0.06::real);
                        sharpe_ratio = (if volatility > 0
                                        then (mean_return - risk_free_rate) / volatility else 0);
                        var_95 = percentile rs 5;
                        var_99 = percentile rs 1;
                        beta = calculate_beta_simplified rs;
                        risk_level = classify_risk volatility max_drawdown var_95
                    in CalcMetrics
                         \<lparr> db_volatility = volatility,
                           db_annualized_return = mean_return,
                           db_sharpe_ratio = sharpe_ratio,
                           db_var_95 = var_95,
                           db_var_99 = var_99,
                           db_max_drawdown = max_drawdown,
                           db_beta = (case beta of None \<Rightarrow> None
                                      | Some b \<Rightarrow> if b \<noteq> 0 then Some b else None),
                           db_risk_level = risk_level,
                           db_data_points = length returns,
                           db_last_price = last (map Close df),
                           db_price_change =
                             (if length df > 1
                              then last (map Close df) - last (butlast (map Close df))
                              else 0) \<rparr>)
                | _ \<Rightarrow> CalcNonFinite (length returns))))"

text \<open>The \<open>data_points\<close> entry of a dictionary of metrics, if it is one.\<close>

fun calc_data_points :: "db_calc \<Rightarrow> nat option" where
  "calc_data_points (CalcError msg) = None"
| "calc_data_points (CalcMetrics m) = Some (db_data_points m)"
| "calc_data_points (CalcNonFinite n) = Some n"

section \<open>Exceptions\<close>

text \<open>
  The exceptions raised inside the functions modelled below. Each of these functions
  catches them itself, in the \<open>except Exception\<close> branch that ends it.
\<close>

datatype py_exception = ValueError string | ZeroDivisionError | NotImplementedError

section \<open>Risk metrics of the risk agent\<close>

text \<open>
  What the agent reads from outside: \<open>yf.Ticker(sym).history(period=p)\<close>, with
  \<open>None\<close> for a call that raises, and the clock.
\<close>

record agent_env =
  yf_history :: "string \<Rightarrow> string \<Rightarrow> bar list option"
  now :: int

text \<open>
  \<open>RiskAgent._get_historical_data\<close>: the NSE ticker first, the BSE ticker if that
  frame is empty. A row's date is cut to its day (\<open>str(date.date())\<close>);
  \<open>int(row['Volume'])\<close> raises on a NaN volume and the \<open>except\<close> branch returns
  \<open>None\<close>.
\<close>

definition to_row :: "bar \<Rightarrow> bar" where
  "to_row b = b\<lparr>Date := (Date b div 86400) * 86400\<rparr>"

definition agent_get_historical_data :: "agent_env \<Rightarrow> string \<Rightarrow> string \<Rightarrow> bar list option" where
  "agent_get_historical_data env symbol period =
     (case yf_history env (symbol @ ''.NS'') period of
        None \<Rightarrow> None
      | Some hist \<Rightarrow>
         (case (if hist = [] then yf_history env (symbol @ ''.BO'') period else Some hist) of
            None \<Rightarrow> None
          | Some hist \<Rightarrow>
             if hist \<noteq> []
             then (if list_ex (\<lambda>b. Volume b = None) hist then None
                   else Some (map to_row hist))
             else None))"

text \<open>A returns series with its index: the dated rows of \<open>pct_change().dropna()\<close>.\<close>

definition returns_series :: "bar list \<Rightarrow> (int \<times> fval) list" where
  "returns_series df =
     filter (\<lambda>(d, v). v \<noteq> NaN) (zip (map Date df) (pct_change (map Close df)))"

text \<open>
  A label of a DatetimeIndex. The index yfinance returns is timezone-aware; an index
  rebuilt with \<open>pd.to_datetime\<close> from the strings \<open>str(date.date())\<close> is
  timezone-naive. A naive and an aware label are never equal.
\<close>

datatype stamp = Naive int | Aware int

definition naive :: "(int \<times> fval) list \<Rightarrow> (stamp \<times> fval) list" where
  "naive series = map (\<lambda>(d, v). (Naive d, v)) series"

definition aware :: "(int \<times> fval) list \<Rightarrow> (stamp \<times> fval) list" where
  "aware series = map (\<lambda>(d, v). (Aware d, v)) series"

text \<open>
  \<open>Index.intersection\<close> (the labels of the first index found in the second, each once)
  and \<open>Series.loc[labels]\<close> (the rows with these labels, in the labels' order).
\<close>

definition index_intersection :: "'l list \<Rightarrow> 'l list \<Rightarrow> 'l list" where
  "index_intersection xs ys = remdups (filter (\<lambda>d. d \<in> set ys) xs)"

definition loc :: "('l \<times> fval) list \<Rightarrow> 'l list \<Rightarrow> fval list" where
  "loc series labels = concat (map (\<lambda>d. map snd (filter (\<lambda>(d', v). d' = d) series)) labels)"

text \<open>
  The last lines of \<open>RiskAgent._calculate_beta\<close>, on the two aligned series:
  \<open>np.cov(stock, market)[0][1] / np.var(market)\<close> unless the variance is zero. An
  infinite entry makes the quotient NaN (and a NaN variance is not equal to zero). Series
  of different lengths make \<open>np.cov\<close> raise, and the \<open>except\<close> branch returns
  \<open>None\<close>.
\<close>

definition beta_of_aligned :: "fval list \<Rightarrow> fval list \<Rightarrow> fval option" where
  "beta_of_aligned stock_aligned market_aligned =
     (if length stock_aligned \<noteq> length market_aligned then None
      else
        (case finite_vals market_aligned of
           None \<Rightarrow> Some NaN
         | Some ms \<Rightarrow>
            (let market_variance = variance 0 ms
             in if market_variance \<noteq> 0
                then (case finite_vals stock_aligned of
                        None \<Rightarrow> Some NaN
                      | Some ss \<Rightarrow> Some (Val (cov ss ms / market_variance)))
                else None)))"

text \<open>
  From "Align dates" on: the part of \<open>_calculate_beta\<close> that depends on the two returns
  series only.
\<close>

definition beta_of_series :: "('l \<times> fval) list \<Rightarrow> ('l \<times> fval) list \<Rightarrow> fval option" where
  "beta_of_series stock_returns nifty_returns =
     (let common_dates = index_intersection (map fst stock_returns) (map fst nifty_returns)
      in if length common_dates < 10 then None
         else beta_of_aligned (loc stock_returns common_dates) (loc nifty_returns common_dates))"

text \<open>
  \<open>RiskAgent._calculate_beta\<close>: the benchmark is one month of NIFTY closes, under
  the timezone-aware index of yfinance.
\<close>

definition calculate_beta :: "agent_env \<Rightarrow> (stamp \<times> fval) list \<Rightarrow> fval option" where
  "calculate_beta env stock_returns =
     (case yf_history env ''^NSEI'' ''1mo'' of
        None \<Rightarrow> None
      | Some nifty_hist \<Rightarrow>
         if nifty_hist = [] then None
         else beta_of_series stock_returns (aware (returns_series nifty_hist)))"

record agent_metrics =
  am_volatility :: real
  am_var_95 :: real
  am_var_99 :: real
  am_cvar_95 :: real
  am_cvar_99 :: real
  am_max_drawdown :: real
  am_sharpe_ratio :: real
  am_beta :: "fval option"
  am_mean_return :: real
  am_std_return :: real
  am_current_price :: real
  am_price_52w_high :: real
  am_price_52w_low :: real
  am_price_position :: real
  am_risk_level :: string
  am_upside_potential :: real
  am_downside_risk :: real

text \<open>
  What \<open>RiskAgent._compute_risk_metrics\<close> returns: the empty dictionary of its
  \<open>except\<close> branch, or the dictionary of metrics. \<open>ComputedNonFinite\<close> is a
  dictionary of metrics with infinities or NaNs among its numeric entries, which are
  not tracked.
\<close>

datatype compute_outcome =
    ComputeEmpty
  | is_Computed: Computed (the_computed: agent_metrics)
  | ComputedNonFinite

definition round4_opt :: "fval option \<Rightarrow> fval option" where
  "round4_opt beta =
     (case beta of
        None \<Rightarrow> None
      | Some (Val b) \<Rightarrow> if b \<noteq> 0 then Some (Val (round4 b)) else None
      | Some v \<Rightarrow> Some v)"

text \<open>
  \<open>RiskAgent._compute_risk_metrics\<close>, for a returns series of at least 10 rows and its
  price column. The two quotients of Python floats in the returned dictionary,
  \<open>price_position\<close> and \<open>upside_potential\<close>, raise ZeroDivisionError on a zero
  divisor; the \<open>except\<close> branch then returns the empty dictionary.
\<close>

definition compute_risk_metrics ::
  "agent_env \<Rightarrow> (stamp \<times> fval) list \<Rightarrow> real list \<Rightarrow> compute_outcome" where
  "compute_risk_metrics env returns prices =
     (let beta = calculate_beta env returns;
          current_price = last prices;
          price_52w_high = fold max prices (hd prices);
          price_52w_low = fold min prices (hd prices)
      in if price_52w_high - price_52w_low = 0 \<or> current_price = 0 then ComputeEmpty
         else
           (case finite_vals (map snd returns) of
              None \<Rightarrow> ComputedNonFinite
            | Some rs \<Rightarrow>
               (case max_drawdown_of rs of
                  Val max_drawdown \<Rightarrow>
                   (let mean_return = mean rs;
                        std_return = std rs;
                        volatility = std_return * sqrt 252;
                        var_95 = percentile rs 5;
                        var_99 = percentile rs 1;
                        cvar_95 = mean (filter (\<lambda>r. r \<le> var_95) rs);
                        cvar_99 = mean (filter (\<lambda>r. r \<le> var_99) rs);
                        risk_free_rate = (0.06::real) / 252;
                        excess_returns = map (\<lambda>r. r - risk_free_rate) rs;
                        sharpe_ratio = (if std excess_returns \<noteq> 0
                                        then mean excess_returns / std excess_returns else 0);
                        risk_level = classify_risk_level volatility max_drawdown var_95
                    in Computed
                         \<lparr> am_volatility = round4 volatility,
                           am_var_95 = round4 var_95,
                           am_var_99 = round4 var_99,
                           am_cvar_95 = round4 cvar_95,
                           am_cvar_99 = round4 cvar_99,
                           am_max_drawdown = round4 max_drawdown,
                           am_sharpe_ratio = round4 sharpe_ratio,
                           am_beta = round4_opt beta,
                           am_mean_return = round4 mean_return,
                           am_std_return = round4 std_return,
                           am_current_price = current_price,
                           am_price_52w_high = price_52w_high,
                           am_price_52w_low = price_52w_low,
                           am_price_position =
                             round4 ((current_price - price_52w_low)
                                       / (price_52w_high - price_52w_low)),
                           am_risk_level = risk_level,
                           am_upside_potential =
                             round4 ((price_52w_high - current_price) / current_price),
                           am_downside_risk =
                             round4 ((current_price - price_52w_low) / current_price) \<rparr>)
                | _ \<Rightarrow> ComputedNonFinite)))"

text \<open>
  The dictionary \<open>RiskAgent._calculate_risk_metrics\<close> returns: the outcome of
  \<open>_compute_risk_metrics\<close>, updated with the metadata.
\<close>

record agent_result =
  ar_metrics :: compute_outcome
  ar_symbol :: string
  ar_period :: string
  ar_data_points :: nat
  ar_start_date :: int
  ar_end_date :: int
  ar_analysis_timestamp :: int

text \<open>
  \<open>RiskAgent._calculate_risk_metrics\<close>, the direct path: \<open>None\<close> without history and
  \<open>None\<close> for fewer than 10 returns. The frame's index is rebuilt from the date
  strings (\<open>pd.to_datetime(df['date'])\<close>), so the returns carry naive labels.
\<close>

definition agent_calculate_risk_metrics ::
  "agent_env \<Rightarrow> string \<Rightarrow> string \<Rightarrow> agent_result option" where
  "agent_calculate_risk_metrics env symbol period =
     (case agent_get_historical_data env symbol period of
        None \<Rightarrow> None
      | Some historical_data \<Rightarrow>
         if historical_data = [] then None
         else
           (let daily_returns = naive (returns_series historical_data)
            in if length daily_returns < 10 then None
               else
                 Some \<lparr> ar_metrics = compute_risk_metrics env daily_returns
                                        (map Close historical_data),
                        ar_symbol = symbol,
                        ar_period = period,
                        ar_data_points = length daily_returns,
                        ar_start_date = Date (hd historical_data),
                        ar_end_date = Date (last historical_data),
                        ar_analysis_timestamp = now env \<rparr>))"

section \<open>The DB server\<close>

text \<open>
  The two MongoDB collections the risk analysis uses. Datetimes are seconds on a common time
  line. \<open>self.db\<close> is \<open>None\<close> when the server was built without a MongoDB URI (its
  "mock mode"), and a pymongo \<open>Database\<close> otherwise. The server tests it with
  \<open>if not self.db\<close>: \<open>not None\<close> is true, and the truth value of a
  \<open>Database\<close> does not exist, \<open>Database.__bool__\<close> raises NotImplementedError
  (pymongo 4; setup_mongodb.py installs \<open>pymongo>=4.6.0\<close>).
\<close>

record price_doc =
  pd_symbol :: string
  pd_date :: int
  pd_open_price :: real
  pd_high_price :: real
  pd_low_price :: real
  pd_close_price :: real
  pd_volume :: int
  pd_timestamp :: int

record analysis_doc =
  ad_symbol :: string
  ad_period :: string
  ad_timestamp :: int
  ad_metrics :: db_calc

record database =
  historical_prices :: "price_doc list"
  volatility_metrics :: "analysis_doc list"

record server =
  db :: "database option"

text \<open>
  What one request reads from outside: the yfinance history (\<open>None\<close> for a call that
  raises), \<open>datetime.now()\<close> and \<open>datetime.utcnow()\<close>.
\<close>

record db_env =
  api_history :: "string \<Rightarrow> string \<Rightarrow> bar list option"
  local_now :: int
  utcnow :: int

definition period_days :: "string \<Rightarrow> int" where
  "period_days period =
     (if period = ''1d'' then 1 else if period = ''5d'' then 5
      else if period = ''1mo'' then 30 else if period = ''3mo'' then 90
      else if period = ''6mo'' then 180 else if period = ''1y'' then 365
      else if period = ''2y'' then 730 else 30)"

text \<open>\<open>bool(self.db)\<close> for a \<open>Database\<close>.\<close>

definition database_bool :: "database \<Rightarrow> py_exception + bool" where
  "database_bool d = Inl NotImplementedError"

text \<open>
  \<open>MCPDatabaseServer._get_data_from_db\<close>. The test of \<open>self.db\<close> stands before
  the \<open>try\<close>: what it raises leaves the function.
\<close>

definition doc_bar :: "price_doc \<Rightarrow> bar" where
  "doc_bar doc =
     \<lparr> Date = pd_date doc, Open = pd_open_price doc, High = pd_high_price doc,
       Low = pd_low_price doc, Close = pd_close_price doc, Volume = Some (pd_volume doc) \<rparr>"

definition get_data_from_db ::
  "server \<Rightarrow> db_env \<Rightarrow> string \<Rightarrow> string \<Rightarrow> py_exception + bar list option" where
  "get_data_from_db s env symbol period =
     (case db s of
        None \<Rightarrow> Inr None
      | Some d \<Rightarrow>
         (case database_bool d of
            Inl e \<Rightarrow> Inl e
          | Inr truth \<Rightarrow>
             if \<not> truth then Inr None
             else
               (let days = period_days period;
                    start_date = local_now env - days * 86400;
                    cursor = sort_key pd_date
                               (filter (\<lambda>doc. pd_symbol doc = symbol
                                               \<and> pd_date doc \<ge> start_date)
                                  (historical_prices d));
                    data = map doc_bar cursor
                in if data \<noteq> [] then Inr (Some data) else Inr None)))"

text \<open>\<open>MCPDatabaseServer._fetch_data_from_api\<close>.\<close>

definition endswith :: "string \<Rightarrow> string \<Rightarrow> bool" where
  "endswith s suffix =
     (length suffix \<le> length s \<and> drop (length s - length suffix) s = suffix)"

definition fetch_data_from_api :: "db_env \<Rightarrow> string \<Rightarrow> string \<Rightarrow> bar list option" where
  "fetch_data_from_api env symbol period =
     (let symbol_with_suffix =
            (if \<not> (endswith symbol ''.NS'' \<or> endswith symbol ''.BO'')
             then (if symbol \<in> set [''RELIANCE'', ''TCS'', ''INFY'', ''HDFC'', ''ITC'']
                   then symbol @ ''.NS'' else symbol @ ''.NS'')
             else symbol)
      in case api_history env symbol_with_suffix period of
           None \<Rightarrow> None
         | Some df \<Rightarrow> if df = [] then None else Some df)"

text \<open>
  \<open>insert_many(documents, ordered=False)\<close> under the unique index on (symbol, date):
  a document whose key is already present is rejected, the others are inserted; the
  duplicate-key error raised at the end is ignored by the caller.
\<close>

definition same_key :: "price_doc \<Rightarrow> price_doc \<Rightarrow> bool" where
  "same_key a b = (pd_symbol a = pd_symbol b \<and> pd_date a = pd_date b)"

fun insert_many :: "price_doc list \<Rightarrow> price_doc list \<Rightarrow> price_doc list" where
  "insert_many coll [] = coll"
| "insert_many coll (doc # docs) =
     insert_many (if list_ex (same_key doc) coll then coll else coll @ [doc]) docs"

text \<open>
  \<open>MCPDatabaseServer._store_price_data_bulk\<close>; the test of \<open>self.db\<close>
  stands before the \<open>try\<close>.
\<close>

definition bar_doc :: "db_env \<Rightarrow> string \<Rightarrow> bar \<Rightarrow> price_doc" where
  "bar_doc env symbol row =
     \<lparr> pd_symbol = symbol, pd_date = Date row, pd_open_price = Open row,
       pd_high_price = High row, pd_low_price = Low row, pd_close_price = Close row,
       pd_volume = (case Volume row of None \<Rightarrow> 0 | Some v \<Rightarrow> v),
       pd_timestamp = utcnow env \<rparr>"

definition store_price_data_bulk ::
  "server \<Rightarrow> db_env \<Rightarrow> string \<Rightarrow> bar list \<Rightarrow> py_exception + server" where
  "store_price_data_bulk s env symbol df =
     (case db s of
        None \<Rightarrow> Inr s
      | Some d \<Rightarrow>
         (case database_bool d of
            Inl e \<Rightarrow> Inl e
          | Inr truth \<Rightarrow>
             if \<not> truth then Inr s
             else
               (let documents = map (bar_doc env symbol) df
                in if documents \<noteq> []
                   then Inr (s\<lparr>db := Some (d\<lparr>historical_prices :=
                                                insert_many (historical_prices d) documents\<rparr>)\<rparr>)
                   else Inr s)))"

text \<open>
  \<open>MCPDatabaseServer._get_historical_data\<close>: the frame returned, and the server
  afterwards. The whole body is one \<open>try\<close>; an exception that reaches it is logged
  and the function returns \<open>None\<close>.
\<close>

definition days_old_of :: "db_env \<Rightarrow> bar list \<Rightarrow> int" where
  "days_old_of env df =
     (let last_date = fold max (map Date df) (Date (hd df))
      in local_now env div 86400 - last_date div 86400)"

definition get_historical_data ::
  "server \<Rightarrow> db_env \<Rightarrow> string \<Rightarrow> string \<Rightarrow> bar list option \<times> server" where
  "get_historical_data s env symbol period =
     (case get_data_from_db s env symbol period of
        Inl e \<Rightarrow> (None, s)
      | Inr df \<Rightarrow>
         if df \<noteq> None \<and> the df \<noteq> [] \<and> days_old_of env (the df) \<le> 1 then (df, s)
         else
           (let fresh_df = fetch_data_from_api env symbol period
            in if fresh_df \<noteq> None \<and> the fresh_df \<noteq> []
               then (case store_price_data_bulk s env symbol (the fresh_df) of
                       Inl e \<Rightarrow> (None, s)
                     | Inr s' \<Rightarrow> (fresh_df, s'))
               else (df, s)))"

text \<open>
  \<open>MCPDatabaseServer._store_risk_analysis\<close>; the test of \<open>self.db\<close>
  stands before the \<open>try\<close>.
\<close>

definition store_risk_analysis ::
  "server \<Rightarrow> db_env \<Rightarrow> string \<Rightarrow> string \<Rightarrow> db_calc \<Rightarrow> py_exception + server" where
  "store_risk_analysis s env symbol period metrics =
     (case db s of
        None \<Rightarrow> Inr s
      | Some d \<Rightarrow>
         (case database_bool d of
            Inl e \<Rightarrow> Inl e
          | Inr truth \<Rightarrow>
             if \<not> truth then Inr s
             else
               (let doc = \<lparr> ad_symbol = symbol, ad_period = period, ad_timestamp = utcnow env,
                            ad_metrics = metrics \<rparr>
                in Inr (s\<lparr>db := Some (d\<lparr>volatility_metrics :=
                                             volatility_metrics d @ [doc]\<rparr>)\<rparr>))))"

text \<open>
  \<open>find_one(filter, sort=[("timestamp", -1)])\<close>: a document with the greatest
  timestamp among those found (the earliest inserted one of them).
\<close>

fun newest :: "analysis_doc list \<Rightarrow> analysis_doc option" where
  "newest [] = None"
| "newest (a # as) =
     (case newest as of
        None \<Rightarrow> Some a
      | Some b \<Rightarrow> if ad_timestamp b > ad_timestamp a then Some b else Some a)"

text \<open>
  \<open>MCPDatabaseServer._get_recent_analysis\<close>; the test of \<open>self.db\<close>
  stands before the \<open>try\<close>.
\<close>

definition get_recent_analysis ::
  "server \<Rightarrow> db_env \<Rightarrow> string \<Rightarrow> string \<Rightarrow> py_exception + analysis_doc option" where
  "get_recent_analysis s env symbol period =
     (case db s of
        None \<Rightarrow> Inr None
      | Some d \<Rightarrow>
         (case database_bool d of
            Inl e \<Rightarrow> Inl e
          | Inr truth \<Rightarrow>
             if \<not> truth then Inr None
             else
               (let one_hour_ago = utcnow env - 3600
                in Inr (newest (filter (\<lambda>a. ad_symbol a = symbol \<and> ad_period a = period
                                             \<and> ad_timestamp a \<ge> one_hour_ago)
                                 (volatility_metrics d))))))"

text \<open>
  What \<open>MCPDatabaseServer.analyze_risk\<close> returns when it is not \<open>None\<close>: the stored
  document of an earlier analysis, or the dictionary just calculated (which has no
  symbol, period or timestamp entry).
\<close>

datatype risk_reply = FromCache analysis_doc | Fresh db_calc

text \<open>
  \<open>MCPDatabaseServer.analyze_risk\<close>: the reply and the server afterwards. A stored
  document is a non-empty dictionary, hence true in \<open>if recent_analysis\<close>. The whole
  body is one \<open>try\<close>: an exception raised by \<open>_get_recent_analysis\<close> or by
  \<open>_store_risk_analysis\<close> is logged and the function returns \<open>None\<close>.
\<close>

definition analyze_risk ::
  "server \<Rightarrow> db_env \<Rightarrow> string \<Rightarrow> string \<Rightarrow> risk_reply option \<times> server" where
  "analyze_risk s env symbol period =
     (case get_recent_analysis s env symbol period of
        Inl e \<Rightarrow> (None, s)
      | Inr (Some recent_analysis) \<Rightarrow> (Some (FromCache recent_analysis), s)
      | Inr None \<Rightarrow>
         (case get_historical_data s env symbol period of
            (df, s1) \<Rightarrow>
              if df = None \<or> the df = [] then (None, s1)
              else
                (let risk_metrics = db_calculate_risk_metrics (the df)
                 in case store_risk_analysis s1 env symbol period risk_metrics of
                      Inl e \<Rightarrow> (None, s1)
                    | Inr s2 \<Rightarrow> (Some (Fresh risk_metrics), s2))))"

text \<open>
  The \<open>analyze_risk\<close> branch of \<open>MCPDatabaseServer.handle_request\<close>: any reply that
  is not \<open>None\<close> goes out as the result, also the dictionary \<open>{"error": msg}\<close>.
\<close>

datatype rpc_response = RpcResult risk_reply | RpcError int string

definition handle_analyze_risk ::
  "server \<Rightarrow> db_env \<Rightarrow> string \<Rightarrow> string \<Rightarrow> rpc_response \<times> server" where
  "handle_analyze_risk s env symbol period =
     (case analyze_risk s env symbol period of
        (Some result, s') \<Rightarrow> (RpcResult result, s')
      | (None, s') \<Rightarrow> (RpcError (-32603) (''Failed to analyze risk for '' @ symbol), s'))"

text \<open>The stored analyses of a server, none without a database.\<close>

definition stored_analyses :: "server \<Rightarrow> analysis_doc list" where
  "stored_analyses s = (case db s of None \<Rightarrow> [] | Some d \<Rightarrow> volatility_metrics d)"

definition stored_prices :: "server \<Rightarrow> price_doc list" where
  "stored_prices s = (case db s of None \<Rightarrow> [] | Some d \<Rightarrow> historical_prices d)"

section \<open>Portfolio risk of the risk agent\<close>

text \<open>
  \<open>RiskAgent.analyze_volatility(symbol)\<close> asks the DB server over HTTP and falls back
  to the direct calculation; \<open>analyze_portfolio_risk\<close> reads three entries of the
  dictionary it returns. The dictionary is taken from outside, as these three entries:
  \<open>None\<close> stands for a key that is absent or holds \<open>None\<close>, numbers are finite.
  \<open>analyze_volatility\<close> itself answers \<open>None\<close> for a symbol without risk data.
\<close>

record risk_view =
  rv_beta :: "real option"
  rv_sharpe_ratio :: "real option"
  rv_risk_level :: "string option"

record portfolio_env =
  analyze_volatility :: "string \<Rightarrow> risk_view option"
  agent :: agent_env

text \<open>
  The portfolio volatility: \<open>None\<close>, a finite float, or a float that is not finite
  (NaN from a negative variance or from a pair of columns with fewer than two common
  dates, or any value computed from an infinite return).
\<close>

datatype pv_result = PVNone | PVal real | PVNonFinite

text \<open>
  \<open>DataFrame(returns_data).cov()\<close>: the covariance of two columns over the dates
  both have, with divisor \<open>n - 1\<close>. Dates are distinct within a column.
\<close>

definition common_rows :: "(int \<times> fval) list \<Rightarrow> (int \<times> fval) list \<Rightarrow> (fval \<times> fval) list" where
  "common_rows xs ys =
     concat (map (\<lambda>(d, v). case map_of ys d of None \<Rightarrow> [] | Some w \<Rightarrow> [(v, w)]) xs)"

definition pair_cov :: "(int \<times> fval) list \<Rightarrow> (int \<times> fval) list \<Rightarrow> real option" where
  "pair_cov xs ys =
     (let rows = common_rows xs ys
      in case finite_vals (map fst rows) of
           None \<Rightarrow> None
         | Some as \<Rightarrow>
            (case finite_vals (map snd rows) of
               None \<Rightarrow> None
             | Some bs \<Rightarrow> if length as < 2 then None else Some (cov as bs)))"

text \<open>
  \<open>np.dot(weights.T, np.dot(cov_matrix * 252, weights))\<close> for columns and weights of
  the same number; \<open>None\<close> when an entry of the matrix is not a finite number.
\<close>

fun dot :: "real list \<Rightarrow> real list \<Rightarrow> real" where
  "dot (x # xs) (y # ys) = x * y + dot xs ys"
| "dot xs ys = 0"

fun all_some :: "'a option list \<Rightarrow> 'a list option" where
  "all_some [] = Some []"
| "all_some (None # xs) = None"
| "all_some (Some x # xs) = map_option ((#) x) (all_some xs)"

definition weighted_covariance :: "(int \<times> fval) list list \<Rightarrow> real list \<Rightarrow> real option" where
  "weighted_covariance columns weights =
     (case all_some (map (\<lambda>ci. all_some (map (\<lambda>cj. map_option (\<lambda>c. c * 252) (pair_cov ci cj))
                                             columns)) columns) of
        None \<Rightarrow> None
      | Some cov_matrix \<Rightarrow> Some (dot weights (map (\<lambda>row. dot row weights) cov_matrix)))"

text \<open>
  \<open>RiskAgent._calculate_portfolio_volatility\<close>. \<open>returns_data\<close> is a dictionary:
  a symbol listed twice has one entry. With weights and columns of different numbers
  \<open>np.dot\<close> raises and the \<open>except\<close> branch returns \<open>None\<close>.
\<close>

definition calculate_portfolio_volatility ::
  "agent_env \<Rightarrow> string list \<Rightarrow> real list \<Rightarrow> pv_result" where
  "calculate_portfolio_volatility env symbols weights =
     (let returns_data =
            concat (map (\<lambda>symbol. case agent_get_historical_data env symbol ''1mo'' of
                                     None \<Rightarrow> []
                                   | Some historical \<Rightarrow> [(symbol, returns_series historical)])
                      (remdups symbols))
      in if length returns_data < 2 then PVNone
         else if length weights \<noteq> length returns_data then PVNone
         else
           (case weighted_covariance (map snd returns_data) weights of
              None \<Rightarrow> PVNonFinite
            | Some portfolio_variance \<Rightarrow>
               if portfolio_variance < 0 then PVNonFinite else PVal (sqrt portfolio_variance)))"

record risk_distribution =
  HIGH :: nat
  MEDIUM :: nat
  LOW :: nat

record portfolio_record =
  pr_portfolio_volatility :: pv_result
  pr_weighted_beta :: real
  pr_weighted_sharpe_ratio :: real
  pr_portfolio_risk_level :: string
  pr_risk_distribution :: risk_distribution
  pr_individual_risks :: "(string \<times> risk_view) list"
  pr_symbols :: "string list"
  pr_weights :: "real list"
  pr_analysis_timestamp :: int

text \<open>
  What \<open>analyze_portfolio_risk\<close> returns: the empty dictionary or the dictionary of the
  portfolio. There is no third kind of value: the function has no error result.
\<close>

datatype portfolio_result = EmptyDict | PortfolioDict portfolio_record

text \<open>\<open>round(portfolio_volatility, 4) if portfolio_volatility else None\<close>.\<close>

definition round_volatility :: "pv_result \<Rightarrow> pv_result" where
  "round_volatility pv =
     (case pv of
        PVNone \<Rightarrow> PVNone
      | PVal v \<Rightarrow> if v \<noteq> 0 then PVal (round4 v) else PVNone
      | PVNonFinite \<Rightarrow> PVNonFinite)"

text \<open>
  The body of the \<open>try\<close> block of \<open>RiskAgent.analyze_portfolio_risk\<close>: an exception
  raised, or the value returned.
\<close>

definition analyze_portfolio_risk_body ::
  "portfolio_env \<Rightarrow> string list \<Rightarrow> real list option \<Rightarrow> py_exception + portfolio_result" where
  "analyze_portfolio_risk_body env symbols weights_arg =
     (case (case weights_arg of
              None \<Rightarrow> if length symbols = 0 then Inl ZeroDivisionError
                      else Inr (replicate (length symbols) (1 / real (length symbols)))
            | Some ws \<Rightarrow> Inr ws) of
        Inl e \<Rightarrow> Inl e
      | Inr weights \<Rightarrow>
         if length weights \<noteq> length symbols
         then Inl (ValueError ''Weights must match number of symbols'')
         else
           (let individual_risks =
                  concat (map (\<lambda>symbol. case analyze_volatility env symbol of
                                           None \<Rightarrow> []
                                         | Some risk_data \<Rightarrow> [(symbol, risk_data)])
                            (remdups symbols))
            in if individual_risks = [] then Inr EmptyDict
               else
                 (let portfolio_volatility =
                        calculate_portfolio_volatility (agent env) symbols weights;
                      weighted_beta =
                        sum_list (map (\<lambda>(symbol, weight).
                                         case map_of individual_risks symbol of
                                           None \<Rightarrow> 0
                                         | Some risk_data \<Rightarrow>
                                            (case rv_beta risk_data of
                                               None \<Rightarrow> 0
                                             | Some b \<Rightarrow> if b \<noteq> 0 then b * weight else 0))
                                    (zip symbols weights));
                      weighted_sharpe =
                        sum_list (map (\<lambda>(symbol, weight).
                                         case map_of individual_risks symbol of
                                           None \<Rightarrow> 0
                                         | Some risk_data \<Rightarrow>
                                            (case rv_sharpe_ratio risk_data of
                                               None \<Rightarrow> 0.0 * weight
                                             | Some sr \<Rightarrow> sr * weight))
                                    (zip symbols weights));
                      risk_levels =
                        concat (map (\<lambda>symbol.
                                       case map_of individual_risks symbol of
                                         None \<Rightarrow> []
                                       | Some risk_data \<Rightarrow>
                                          [case rv_risk_level risk_data of
                                             None \<Rightarrow> ''MEDIUM'' | Some l \<Rightarrow> l])
                                  symbols);
                      risk_distribution =
                        \<lparr> HIGH = count_list risk_levels ''HIGH'',
                          MEDIUM = count_list risk_levels ''MEDIUM'',
                          LOW = count_list risk_levels ''LOW'' \<rparr>;
                      portfolio_risk_level =
                        (if real (HIGH risk_distribution) > real (length symbols) * 0.3
                         then ''HIGH''
                         else if HIGH risk_distribution > 0
                                 \<or> real (MEDIUM risk_distribution) > real (length symbols) * 0.5
                         then ''MEDIUM''
                         else ''LOW'')
                  in Inr (PortfolioDict
                       \<lparr> pr_portfolio_volatility = round_volatility portfolio_volatility,
                         pr_weighted_beta = round4 weighted_beta,
                         pr_weighted_sharpe_ratio = round4 weighted_sharpe,
                         pr_portfolio_risk_level = portfolio_risk_level,
                         pr_risk_distribution = risk_distribution,
                         pr_individual_risks = individual_risks,
                         pr_symbols = symbols,
                         pr_weights = weights,
                         pr_analysis_timestamp = now (agent env) \<rparr>))))"

text \<open>
  \<open>RiskAgent.analyze_portfolio_risk\<close>: the \<open>except Exception\<close> branch logs the
  exception and returns the empty dictionary.
\<close>

definition analyze_portfolio_risk ::
  "portfolio_env \<Rightarrow> string list \<Rightarrow> real list option \<Rightarrow> portfolio_result" where
  "analyze_portfolio_risk env symbols weights_arg =
     (case analyze_portfolio_risk_body env symbols weights_arg of
        Inl e \<Rightarrow> EmptyDict
      | Inr result \<Rightarrow> result)"

section \<open>Example data\<close>

text \<open>
  The nine-bar price series of the specification's scenario (8 returns), a clock and a
  quote source that knows the one ticker, and a server without a database.
\<close>

definition example_bar :: "int \<Rightarrow> real \<Rightarrow> bar" where
  "example_bar day c =
     \<lparr> Date = day * 86400, Open = c, High = c, Low = c, Close = c, Volume = Some 1000 \<rparr>"

definition nine_bars :: "bar list" where
  "nine_bars =
     [example_bar 1 100, example_bar 2 102, example_bar 3 101, example_bar 4 105,
      example_bar 5 103, example_bar 6 108, example_bar 7 106, example_bar 8 110,
      example_bar 9 107]"

definition example_db_env :: "int \<Rightarrow> bar list \<Rightarrow> db_env" where
  "example_db_env t bars =
     \<lparr> api_history = (\<lambda>sym period. if sym = ''INFY.NS'' then Some bars else None),
       local_now = t, utcnow = t \<rparr>"

definition example_agent_env :: "bar list \<Rightarrow> agent_env" where
  "example_agent_env bars =
     \<lparr> yf_history = (\<lambda>sym period. if sym = ''INFY.NS'' then Some bars else None),
       now = 0 \<rparr>"

definition mock_server :: server where
  "mock_server = \<lparr> db = None \<rparr>"

text \<open>
  A server whose database holds one analysis of INFY made at time 1000, and one whose
  database holds an analysis made at time 0.
\<close>

definition recent_doc :: analysis_doc where
  "recent_doc =
     \<lparr> ad_symbol = ''INFY'', ad_period = ''1mo'', ad_timestamp = 1000,
       ad_metrics = db_calculate_risk_metrics nine_bars \<rparr>"

definition recent_server :: server where
  "recent_server = \<lparr> db = Some \<lparr> historical_prices = [], volatility_metrics = [recent_doc] \<rparr> \<rparr>"

definition stale_doc :: analysis_doc where
  "stale_doc =
     \<lparr> ad_symbol = ''INFY'', ad_period = ''1mo'', ad_timestamp = 0,
       ad_metrics = db_calculate_risk_metrics nine_bars \<rparr>"

definition stale_server :: server where
  "stale_server = \<lparr> db = Some \<lparr> historical_prices = [], volatility_metrics = [stale_doc] \<rparr> \<rparr>"

text \<open>A server whose database holds one INFY bar, dated day 10.\<close>

definition one_price_server :: server where
  "one_price_server =
     \<lparr> db = Some \<lparr> historical_prices = [bar_doc (example_db_env 0 []) ''INFY'' (example_bar 10 104)],
                    volatility_metrics = [] \<rparr> \<rparr>"

text \<open>
  A portfolio environment in which INFY has risk data and a nine-bar history, and no other
  symbol has either.
\<close>

definition example_view :: risk_view where
  "example_view = \<lparr> rv_beta = Some 1.2, rv_sharpe_ratio = Some 0.5, rv_risk_level = Some ''HIGH'' \<rparr>"

definition example_portfolio_env :: portfolio_env where
  "example_portfolio_env =
     \<lparr> analyze_volatility = (\<lambda>symbol. if symbol = ''INFY'' then Some example_view else None),
       agent = example_agent_env nine_bars \<rparr>"

text \<open>The entries of a returned dictionary, if it is not empty.\<close>

fun result_weights :: "portfolio_result \<Rightarrow> real list option" where
  "result_weights EmptyDict = None"
| "result_weights (PortfolioDict r) = Some (pr_weights r)"

fun result_volatility :: "portfolio_result \<Rightarrow> pv_result option" where
  "result_volatility EmptyDict = None"
| "result_volatility (PortfolioDict r) = Some (pr_portfolio_volatility r)"

text \<open>
  The eleven-bar series of the specification's scenario (10 returns), eleven bars of a
  constant benchmark, and agent environments whose NIFTY history is a given series.
\<close>

definition eleven_bars :: "bar list" where
  "eleven_bars =
     [example_bar 1 100, example_bar 2 102, example_bar 3 101, example_bar 4 105,
      example_bar 5 103, example_bar 6 108, example_bar 7 106, example_bar 8 110,
      example_bar 9 107, example_bar 10 112, example_bar 11 109]"

definition constant_bars :: "bar list" where
  "constant_bars =
     [example_bar 1 50, example_bar 2 50, example_bar 3 50, example_bar 4 50,
      example_bar 5 50, example_bar 6 50, example_bar 7 50, example_bar 8 50,
      example_bar 9 50, example_bar 10 50, example_bar 11 50]"

definition nifty_env :: "bar list \<Rightarrow> agent_env" where
  "nifty_env bars =
     \<lparr> yf_history = (\<lambda>sym period. if sym = ''^NSEI'' then Some bars else None), now = 0 \<rparr>"

definition eleven_returns :: "real list" where
  "eleven_returns =
     [1 / 50, - (1 / 102), 4 / 101, - (2 / 105), 5 / 103, - (1 / 54), 2 / 53, - (3 / 110),
      5 / 107, - (3 / 112)]"

section \<open>Theorems\<close>

subsection \<open>Risk classification\<close>

lemma classify_risk_score:
  "classify_risk v d r = spec_risk_label (spec_risk_score v d r)"
  unfolding classify_risk_def spec_risk_label_def spec_risk_score_def
    spec_volatility_score_def spec_drawdown_score_def spec_var_score_def Let_def
  by simp

lemma spec_risk_score_le_9: "spec_risk_score v d r \<le> 9"
  unfolding spec_risk_score_def spec_volatility_score_def spec_drawdown_score_def
    spec_var_score_def
  by simp

lemma classify_risk_level_cases:
  "classify_risk_level v d r = ''HIGH'' \<or> classify_risk_level v d r = ''MEDIUM''
     \<or> classify_risk_level v d r = ''LOW''"
  unfolding classify_risk_level_def Let_def by simp

text \<open>
  C1 (as stated, refuted on the direct path). The claim asks for the 0--9 scoring on every
  path that produces a risk level. With volatility 0.5, maximum drawdown -0.4 and VaR-95
  -0.06 the scoring gives 9 and the label "Very High", and the direct path
  (\<open>RiskAgent._classify_risk_level\<close>) answers "HIGH".
\<close>

theorem C1_direct_path_counterexample:
  "spec_risk_label (spec_risk_score 0.5 (-0.4) (-0.06)) = ''Very High''
   \<and> classify_risk_level 0.5 (-0.4) (-0.06) = ''HIGH''
   \<and> classify_risk_level 0.5 (-0.4) (-0.06) \<noteq> spec_risk_label (spec_risk_score 0.5 (-0.4) (-0.06))"
  unfolding classify_risk_level_def spec_risk_label_def spec_risk_score_def
    spec_volatility_score_def spec_drawdown_score_def spec_var_score_def Let_def
  by simp

lemma classify_risk_level_high:
  "classify_risk_level v d r = ''HIGH'' \<longleftrightarrow> 2 \<le> high_indicators v d r"
  unfolding classify_risk_level_def high_indicators_def Let_def by simp

lemma classify_risk_level_medium:
  "high_indicators v d r = 1 \<Longrightarrow> classify_risk_level v d r = ''MEDIUM''"
  unfolding classify_risk_level_def high_indicators_def Let_def
  by (simp split: if_splits)

lemma classify_risk_level_low:
  "high_indicators v d r = 0 \<Longrightarrow> medium_indicators v d r \<le> 1 \<Longrightarrow>
     classify_risk_level v d r = ''LOW''"
  unfolding classify_risk_level_def high_indicators_def medium_indicators_def Let_def
  by (simp split: if_splits)

text \<open>
  C1 (amended). On the DB-server path the risk level is exactly the label of the 0--9 score
  (which never exceeds 9). On the direct path the risk level is one of the three labels
  "HIGH", "MEDIUM", "LOW" of \<open>_classify_risk_level\<close>: "HIGH" exactly when at least two
  of the three indicators are beyond their high thresholds (volatility above 0.3, maximum
  drawdown below -0.2, VaR-95 below -0.03), "MEDIUM" when exactly one is, and "LOW" when
  none is and at most one indicator is in its medium range (volatility in (0.2, 0.3],
  drawdown in [-0.2, -0.1), VaR-95 in [-0.03, -0.02)).
\<close>

theorem C1_classification_by_path:
  "classify_risk v d r = spec_risk_label (spec_risk_score v d r)
   \<and> spec_risk_score v d r \<le> 9
   \<and> (classify_risk_level v d r = ''HIGH'' \<or> classify_risk_level v d r = ''MEDIUM''
        \<or> classify_risk_level v d r = ''LOW'')
   \<and> (classify_risk_level v d r = ''HIGH'' \<longleftrightarrow> 2 \<le> high_indicators v d r)
   \<and> (high_indicators v d r = 1 \<longrightarrow> classify_risk_level v d r = ''MEDIUM'')
   \<and> (high_indicators v d r = 0 \<and> medium_indicators v d r \<le> 1
        \<longrightarrow> classify_risk_level v d r = ''LOW'')"
  using classify_risk_score [of v d r] spec_risk_score_le_9 [of v d r]
    classify_risk_level_cases [of v d r] classify_risk_level_high [of v d r]
    classify_risk_level_medium [of v d r] classify_risk_level_low [of v d r]
  by blast

theorem C1_classification_by_path_witness:
  "classify_risk 0.5 (-0.4) (-0.06) = ''Very High''
   \<and> classify_risk_level 0.5 (-0.4) (-0.06) = ''HIGH''
   \<and> classify_risk_level 0.35 (-0.05) (-0.01) = ''MEDIUM''
   \<and> classify_risk_level 0.25 (-0.05) (-0.01) = ''LOW''
   \<and> classify_risk_level 0.1 (-0.15) (-0.01) = ''LOW''"
proof -
  have a: "spec_risk_label (spec_risk_score 0.5 (-0.4) (-0.06)) = ''Very High''"
    by (simp add: spec_risk_label_def spec_risk_score_def spec_volatility_score_def
         spec_drawdown_score_def spec_var_score_def)
  have b: "2 \<le> high_indicators 0.5 (-0.4) (-0.06)"
    by (simp add: high_indicators_def)
  have c: "high_indicators 0.35 (-0.05) (-0.01) = 1"
    by (simp add: high_indicators_def)
  have d: "high_indicators 0.25 (-0.05) (-0.01) = 0" "medium_indicators 0.25 (-0.05) (-0.01) \<le> 1"
    by (simp_all add: high_indicators_def medium_indicators_def)
  have e: "high_indicators 0.1 (-0.15) (-0.01) = 0" "medium_indicators 0.1 (-0.15) (-0.01) \<le> 1"
    by (simp_all add: high_indicators_def medium_indicators_def)
  show ?thesis
    using C1_classification_by_path [of "0.5" "-0.4" "-0.06"]
      C1_classification_by_path [of "0.35" "-0.05" "-0.01"]
      C1_classification_by_path [of "0.25" "-0.05" "-0.01"]
      C1_classification_by_path [of "0.1" "-0.15" "-0.01"]
      a b c d e
    by simp
qed

subsection \<open>Returns\<close>

lemma change_NaN_iff: "change p c = NaN \<longleftrightarrow> p = 0 \<and> c = 0"
  by (simp add: change_def)

lemma change_infinite_iff: "infinite_val (change p c) \<longleftrightarrow> p = 0 \<and> c \<noteq> 0"
  by (auto simp add: change_def infinite_val_def)

lemma length_dropna_changes:
  "length (dropna (changes p cs)) + zero_pairs_from p cs = length cs"
  by (induction cs arbitrary: p) (simp_all add: dropna_def change_NaN_iff)

lemma infinite_dropna_changes:
  "length (filter infinite_val (dropna (changes p cs))) = zero_priors_from p cs"
proof (induction cs arbitrary: p)
  case Nil
  show ?case by (simp add: dropna_def)
next
  case (Cons c cs)
  have "length (filter infinite_val (dropna (changes c cs))) = zero_priors_from c cs"
    by (rule Cons.IH)
  then show ?case
    using change_infinite_iff [of p c] change_NaN_iff [of p c]
    by (auto simp add: dropna_def infinite_val_def)
qed

lemma length_daily_returns:
  "length (daily_returns closes) + zero_pairs closes = length closes - 1"
proof (cases closes)
  case Nil
  then show ?thesis by (simp add: daily_returns_def dropna_def)
next
  case (Cons c cs)
  have "dropna (NaN # changes c cs) = dropna (changes c cs)"
    by (simp add: dropna_def)
  with Cons show ?thesis
    using length_dropna_changes [of c cs] by (simp add: daily_returns_def)
qed

lemma infinite_daily_returns:
  "length (filter infinite_val (daily_returns closes)) = zero_priors closes"
proof (cases closes)
  case Nil
  then show ?thesis by (simp add: daily_returns_def dropna_def)
next
  case (Cons c cs)
  have "dropna (NaN # changes c cs) = dropna (changes c cs)"
    by (simp add: dropna_def)
  with Cons show ?thesis
    using infinite_dropna_changes [of c cs] by (simp add: daily_returns_def)
qed

lemma zero_pairs_from_nonzero: "0 \<notin> set cs \<Longrightarrow> zero_pairs_from p cs = 0"
  by (induction cs arbitrary: p) auto

lemma nine_closes: "map Close nine_bars = [100, 102, 101, 105, 103, 108, 106, 110, 107]"
  by (simp add: nine_bars_def example_bar_def)

text \<open>
  C7 (as stated, refuted). Two closes that are both zero give a returns series of length
  0, not \<open>max (2 - 1) 0 = 1\<close>: the row is dropped as NaN. A zero close followed by the
  close 5 gives a returns series of length 1 whose only entry is the infinity: the row
  with the zero prior close is not excluded.
\<close>

theorem C7_zero_close_counterexample:
  "daily_returns [0, 0] = [] \<and> length (daily_returns [0, 0]) \<noteq> max (length [0, 0 :: real] - 1) 0
   \<and> daily_returns [0, 5] = [PInf]"
  by (simp add: daily_returns_def dropna_def change_def)

text \<open>
  C7 (amended). The returns series of a price series of length n has length
  \<open>max (n - 1) 0\<close> less the number of rows whose own and prior close are both zero
  (those rows alone are dropped): its length is \<open>max (n - 1) 0\<close> when no close is
  zero, and a series of fewer than 2 bars yields no returns. Every row with a zero prior
  close and a nonzero close stays in the series, as an infinite return.
\<close>

theorem C7_returns_length:
  "length (daily_returns closes) = max (length closes - 1) 0 - zero_pairs closes
   \<and> (0 \<notin> set closes \<longrightarrow> length (daily_returns closes) = max (length closes - 1) 0)
   \<and> (length closes < 2 \<longrightarrow> daily_returns closes = [])
   \<and> length (filter infinite_val (daily_returns closes)) = zero_priors closes"
proof -
  have a: "length (daily_returns closes) = max (length closes - 1) 0 - zero_pairs closes"
    using length_daily_returns [of closes] by simp
  have b: "daily_returns closes = []" if "length closes < 2"
  proof -
    from that have "length closes - 1 = 0" by simp
    with length_daily_returns [of closes] show ?thesis by simp
  qed
  have c: "length (daily_returns closes) = max (length closes - 1) 0" if "0 \<notin> set closes"
  proof -
    from that have "zero_pairs closes = 0"
      by (cases closes) (simp_all add: zero_pairs_from_nonzero)
    with a show ?thesis by simp
  qed
  show ?thesis
    using a b c infinite_daily_returns [of closes] by blast
qed

theorem C7_returns_length_witness:
  "length (daily_returns (map Close nine_bars)) = 8
   \<and> daily_returns [100] = []
   \<and> length (filter infinite_val (daily_returns [0, 5, 0, 0])) = 1
   \<and> length (daily_returns [0, 5, 0, 0]) = 2"
proof -
  have a: "0 \<notin> set (map Close nine_bars)" by (simp add: nine_closes)
  have b: "length (map Close nine_bars) = 9" by (simp add: nine_closes)
  have c: "length [100::real] < 2" by simp
  have d: "zero_priors [0, 5, 0, 0] = 1" "zero_pairs [0, 5, 0, 0] = 1" by simp_all
  show ?thesis
    using C7_returns_length [of "map Close nine_bars"] C7_returns_length [of "[100]"]
      C7_returns_length [of "[0, 5, 0, 0]"] a b c d
    by simp
qed

subsection \<open>Insufficient data\<close>

lemma length_changes: "length (changes p cs) = length cs"
  by (induction cs arbitrary: p) simp_all

lemma length_pct_change: "length (pct_change cs) = length cs"
  by (cases cs) (simp_all add: length_changes)

lemma map_snd_filter_zip:
  "length ds = length vs \<Longrightarrow> map snd (filter (\<lambda>(d, v). P v) (zip ds vs)) = filter P vs"
  by (induction ds vs rule: list_induct2) simp_all

lemma map_snd_returns_series: "map snd (returns_series df) = daily_returns (map Close df)"
  unfolding returns_series_def daily_returns_def dropna_def
  by (rule map_snd_filter_zip) (simp add: length_pct_change)

lemma length_returns_series:
  "length (returns_series df) = length (daily_returns (map Close df))"
  using map_snd_returns_series [of df] by (metis length_map)

lemma db_insufficient:
  "length (daily_returns (map Close df)) < 2 \<Longrightarrow>
     db_calculate_risk_metrics df = CalcError ''Insufficient data for risk calculation''"
  by (simp add: db_calculate_risk_metrics_def Let_def)

lemma db_sufficient:
  "2 \<le> length (daily_returns (map Close df)) \<Longrightarrow>
     calc_data_points (db_calculate_risk_metrics df) = Some (length (daily_returns (map Close df)))"
  by (simp add: db_calculate_risk_metrics_def Let_def split: option.splits fval.splits)

lemma agent_insufficient:
  "agent_get_historical_data env symbol period = Some hist \<Longrightarrow>
   length (daily_returns (map Close hist)) < 10 \<Longrightarrow>
   agent_calculate_risk_metrics env symbol period = None"
  by (simp add: agent_calculate_risk_metrics_def Let_def length_returns_series naive_def)

lemma agent_no_history:
  "agent_get_historical_data env symbol period = None \<Longrightarrow>
   agent_calculate_risk_metrics env symbol period = None"
  by (simp add: agent_calculate_risk_metrics_def)

lemma nine_returns_length: "length (daily_returns (map Close nine_bars)) = 8"
  by (simp add: nine_closes daily_returns_def dropna_def change_def)

lemma nine_metrics: "is_CalcMetrics (db_calculate_risk_metrics nine_bars)"
  by (simp add: db_calculate_risk_metrics_def Let_def nine_closes daily_returns_def dropna_def
      change_def max_drawdown_of_def cumprod_def quotient_def series_min_def)

lemma nine_fetch: "fetch_data_from_api (example_db_env t nine_bars) ''INFY'' ''1mo'' = Some nine_bars"
  by (simp add: fetch_data_from_api_def example_db_env_def endswith_def nine_bars_def)

lemma nine_analyze_mock:
  "fst (analyze_risk mock_server (example_db_env 0 nine_bars) ''INFY'' ''1mo'')
     = Some (Fresh (db_calculate_risk_metrics nine_bars))"
  using nine_fetch [of 0]
  by (simp add: analyze_risk_def get_recent_analysis_def mock_server_def get_historical_data_def
       get_data_from_db_def store_price_data_bulk_def store_risk_analysis_def Let_def
       nine_bars_def)

lemma nine_agent_hist:
  "agent_get_historical_data (example_agent_env nine_bars) ''INFY'' ''1mo'' = Some (map to_row nine_bars)"
  by (simp add: agent_get_historical_data_def example_agent_env_def nine_bars_def example_bar_def)

lemma close_to_row: "map Close (map to_row bs) = map Close bs"
  by (simp add: to_row_def)

text \<open>
  C2 (as stated, refuted on the DB-server path). The nine-bar series has 8 returns, fewer
  than 10. \<open>MCPDatabaseServer._calculate_risk_metrics\<close> checks \<open>len(returns) < 2\<close>
  and goes on: it returns a dictionary of metrics with \<open>data_points = 8\<close>, and
  \<open>analyze_risk\<close> returns that dictionary.
\<close>

theorem C2_db_path_counterexample:
  "length (daily_returns (map Close nine_bars)) = 8
   \<and> is_CalcMetrics (db_calculate_risk_metrics nine_bars)
   \<and> calc_data_points (db_calculate_risk_metrics nine_bars) = Some 8
   \<and> fst (analyze_risk mock_server (example_db_env 0 nine_bars) ''INFY'' ''1mo'')
       = Some (Fresh (db_calculate_risk_metrics nine_bars))"
  using db_sufficient [of nine_bars]
  by (simp add: nine_returns_length nine_metrics nine_analyze_mock)

text \<open>
  C2 (amended). On the direct path a price series whose returns series has fewer than 10
  observations yields \<open>None\<close> and no metrics (as does a missing history). On the
  DB-server path the bound is 2: with fewer than 2 returns
  \<open>_calculate_risk_metrics\<close> returns the dictionary
  \<open>{"error": "Insufficient data for risk calculation"}\<close> and computes nothing, and
  with 2 or more returns it returns a dictionary of metrics over all of them.
\<close>

theorem C2_insufficient_data_by_path:
  "(agent_get_historical_data env symbol period = Some hist
      \<and> length (daily_returns (map Close hist)) < 10
      \<longrightarrow> agent_calculate_risk_metrics env symbol period = None)
   \<and> (agent_get_historical_data env symbol period = None
      \<longrightarrow> agent_calculate_risk_metrics env symbol period = None)
   \<and> (length (daily_returns (map Close df)) < 2
      \<longrightarrow> db_calculate_risk_metrics df = CalcError ''Insufficient data for risk calculation'')
   \<and> (2 \<le> length (daily_returns (map Close df))
      \<longrightarrow> \<not> is_CalcError (db_calculate_risk_metrics df)
          \<and> calc_data_points (db_calculate_risk_metrics df)
              = Some (length (daily_returns (map Close df))))"
proof -
  have "\<not> is_CalcError (db_calculate_risk_metrics df)"
    if "2 \<le> length (daily_returns (map Close df))"
    using db_sufficient [OF that] by (cases "db_calculate_risk_metrics df") simp_all
  then show ?thesis
    using agent_insufficient [of env symbol period hist] agent_no_history [of env symbol period]
      db_insufficient [of df] db_sufficient [of df]
    by blast
qed

theorem C2_insufficient_data_witness:
  "agent_calculate_risk_metrics (example_agent_env nine_bars) ''INFY'' ''1mo'' = None
   \<and> agent_calculate_risk_metrics (example_agent_env nine_bars) ''TCS'' ''1mo'' = None
   \<and> db_calculate_risk_metrics [example_bar 1 100, example_bar 2 102]
       = CalcError ''Insufficient data for risk calculation''
   \<and> \<not> is_CalcError (db_calculate_risk_metrics nine_bars)
   \<and> calc_data_points (db_calculate_risk_metrics nine_bars) = Some 8"
proof -
  have a: "agent_get_historical_data (example_agent_env nine_bars) ''INFY'' ''1mo''
             = Some (map to_row nine_bars)"
    by (rule nine_agent_hist)
  have b: "length (daily_returns (map Close (map to_row nine_bars))) < 10"
    unfolding close_to_row using nine_returns_length by simp
  have c: "agent_get_historical_data (example_agent_env nine_bars) ''TCS'' ''1mo'' = None"
    by (simp add: agent_get_historical_data_def example_agent_env_def)
  have d: "length (daily_returns (map Close [example_bar 1 100, example_bar 2 102])) < 2"
    by (simp add: example_bar_def daily_returns_def dropna_def change_def)
  have e: "2 \<le> length (daily_returns (map Close nine_bars))"
    by (simp add: nine_returns_length)
  show ?thesis
    using C2_insufficient_data_by_path
            [of "example_agent_env nine_bars" "''INFY''" "''1mo''" "map to_row nine_bars" nine_bars]
          C2_insufficient_data_by_path
            [of "example_agent_env nine_bars" "''TCS''" "''1mo''" "[]"
                "[example_bar 1 100, example_bar 2 102]"]
          a b c d e
    by (simp only: nine_returns_length) simp
qed

subsection \<open>The analysis cache\<close>

lemma get_recent_analysis_cases:
  "get_recent_analysis s env symbol period
     = (case db s of None \<Rightarrow> Inr None | Some d \<Rightarrow> Inl NotImplementedError)"
  by (simp add: get_recent_analysis_def database_bool_def split: option.splits)

lemma get_data_from_db_cases:
  "get_data_from_db s env symbol period
     = (case db s of None \<Rightarrow> Inr None | Some d \<Rightarrow> Inl NotImplementedError)"
  by (simp add: get_data_from_db_def database_bool_def split: option.splits)

lemma store_price_data_bulk_cases:
  "store_price_data_bulk s env symbol df
     = (case db s of None \<Rightarrow> Inr s | Some d \<Rightarrow> Inl NotImplementedError)"
  by (simp add: store_price_data_bulk_def database_bool_def split: option.splits)

lemma store_risk_analysis_cases:
  "store_risk_analysis s env symbol period m
     = (case db s of None \<Rightarrow> Inr s | Some d \<Rightarrow> Inl NotImplementedError)"
  by (simp add: store_risk_analysis_def database_bool_def split: option.splits)

lemma fetch_Some_nonempty: "fetch_data_from_api env symbol period = Some fresh \<Longrightarrow> fresh \<noteq> []"
  by (auto simp add: fetch_data_from_api_def Let_def split: option.splits if_splits)

lemma get_historical_data_handle:
  "db s = Some d \<Longrightarrow> get_historical_data s env symbol period = (None, s)"
  by (simp add: get_historical_data_def get_data_from_db_cases)

lemma get_historical_data_mock:
  assumes "db s = None"
  shows "get_historical_data s env symbol period = (fetch_data_from_api env symbol period, s)"
proof (cases "fetch_data_from_api env symbol period")
  case None
  with assms show ?thesis
    by (simp add: get_historical_data_def get_data_from_db_cases Let_def)
next
  case (Some fresh)
  with assms fetch_Some_nonempty [OF Some] show ?thesis
    by (simp add: get_historical_data_def get_data_from_db_cases store_price_data_bulk_cases
         Let_def)
qed

lemma analyze_risk_handle:
  "db s = Some d \<Longrightarrow> analyze_risk s env symbol period = (None, s)"
  by (simp add: analyze_risk_def get_recent_analysis_cases)

lemma analyze_risk_mock:
  assumes "db s = None"
  shows "analyze_risk s env symbol period
           = (map_option (\<lambda>df. Fresh (db_calculate_risk_metrics df))
                (fetch_data_from_api env symbol period), s)"
proof (cases "fetch_data_from_api env symbol period")
  case None
  with assms show ?thesis
    by (simp add: analyze_risk_def get_recent_analysis_cases get_historical_data_mock)
next
  case (Some fresh)
  with assms fetch_Some_nonempty [OF Some] show ?thesis
    by (simp add: analyze_risk_def get_recent_analysis_cases get_historical_data_mock
         store_risk_analysis_cases Let_def)
qed

lemma analyze_risk_never_cached:
  "fst (analyze_risk s env symbol period) \<noteq> Some (FromCache a)"
  by (cases "db s") (auto simp add: analyze_risk_handle analyze_risk_mock)

lemma analyze_risk_server: "snd (analyze_risk s env symbol period) = s"
  by (cases "db s") (simp_all add: analyze_risk_handle analyze_risk_mock)

lemma get_historical_data_server: "snd (get_historical_data s env symbol period) = s"
  by (cases "db s") (simp_all add: get_historical_data_handle get_historical_data_mock)

lemma handle_analyze_risk_fst:
  "fst (handle_analyze_risk s env symbol period) =
     (case fst (analyze_risk s env symbol period) of
        Some result \<Rightarrow> RpcResult result
      | None \<Rightarrow> RpcError (-32603) (''Failed to analyze risk for '' @ symbol))"
  by (simp add: handle_analyze_risk_def split: prod.splits option.splits)

lemma no_fetch: "fetch_data_from_api (example_db_env t []) symbol period = None"
  by (simp add: fetch_data_from_api_def example_db_env_def Let_def)

lemma two_fetch:
  "fetch_data_from_api (example_db_env t [example_bar 1 100, example_bar 2 102]) ''INFY'' ''1mo''
     = Some [example_bar 1 100, example_bar 2 102]"
  by (simp add: fetch_data_from_api_def example_db_env_def endswith_def)

lemma mock_db: "db mock_server = None"
  by (simp add: mock_server_def)

lemma recent_db:
  "db recent_server = Some \<lparr> historical_prices = [], volatility_metrics = [recent_doc] \<rparr>"
  by (simp add: recent_server_def)

lemma stale_db:
  "db stale_server = Some \<lparr> historical_prices = [], volatility_metrics = [stale_doc] \<rparr>"
  by (simp add: stale_server_def)

text \<open>
  C3 (the code at the failing inputs). A server built as \<open>MCPDatabaseServer()\<close> has
  no database: it analyses INFY at time 1000, and a second call 600 seconds later
  calculates again from whatever the quote source then returns (the same reply without a
  timestamp when the source returns the same bars, \<open>None\<close> when it returns nothing);
  the server holds nothing in between. A server with a database that holds an analysis
  made 600 seconds ago returns \<open>None\<close>, not that analysis. No call of
  \<open>analyze_risk\<close> is ever answered with a stored document, and no call changes the
  server.
\<close>

theorem C3_second_call_recomputes:
  "analyze_risk mock_server (example_db_env 1000 nine_bars) ''INFY'' ''1mo''
     = (Some (Fresh (db_calculate_risk_metrics nine_bars)), mock_server)
   \<and> analyze_risk mock_server (example_db_env 1600 nine_bars) ''INFY'' ''1mo''
       = (Some (Fresh (db_calculate_risk_metrics nine_bars)), mock_server)
   \<and> analyze_risk mock_server (example_db_env 1600 []) ''INFY'' ''1mo'' = (None, mock_server)
   \<and> analyze_risk recent_server (example_db_env 1600 nine_bars) ''INFY'' ''1mo''
       = (None, recent_server)
   \<and> fst (analyze_risk s env symbol period) \<noteq> Some (FromCache a)
   \<and> snd (analyze_risk s env symbol period) = s"
  using analyze_risk_mock [OF mock_db, of "example_db_env 1000 nine_bars" "''INFY''" "''1mo''"]
    analyze_risk_mock [OF mock_db, of "example_db_env 1600 nine_bars" "''INFY''" "''1mo''"]
    analyze_risk_mock [OF mock_db, of "example_db_env 1600 []" "''INFY''" "''1mo''"]
    analyze_risk_handle [OF recent_db, of "example_db_env 1600 nine_bars" "''INFY''" "''1mo''"]
    nine_fetch [of 1000] nine_fetch [of 1600] no_fetch [of 1600 "''INFY''" "''1mo''"]
    analyze_risk_never_cached [of s env symbol period a] analyze_risk_server [of s env symbol period]
  by simp

text \<open>
  C4. When every stored analysis of (symbol, period) is older than one hour,
  \<open>analyze_risk\<close> never answers with a stored document. If the recomputation fails, the
  caller receives the failure: without a price series the reply is \<open>None\<close> (the JSON-RPC
  error -32603), and when the calculation reports an error the reply is that error
  dictionary.
\<close>

theorem C4_stale_not_served:
  assumes "\<forall>a \<in> set (stored_analyses s).
             ad_symbol a = symbol \<and> ad_period a = period \<longrightarrow> ad_timestamp a < utcnow env - 3600"
  shows "(\<forall>a. fst (analyze_risk s env symbol period) \<noteq> Some (FromCache a))
         \<and> (fst (get_historical_data s env symbol period) = None
              \<or> fst (get_historical_data s env symbol period) = Some []
            \<longrightarrow> fst (analyze_risk s env symbol period) = None
                \<and> fst (handle_analyze_risk s env symbol period)
                    = RpcError (-32603) (''Failed to analyze risk for '' @ symbol))
         \<and> (fst (get_historical_data s env symbol period) = Some df \<and> df \<noteq> []
              \<and> db_calculate_risk_metrics df = CalcError msg
            \<longrightarrow> fst (analyze_risk s env symbol period) = Some (Fresh (CalcError msg)))"
proof (cases "db s")
  case None
  note ghd = get_historical_data_mock [OF None, of env symbol period]
  note ar = analyze_risk_mock [OF None, of env symbol period]
  have "fst (analyze_risk s env symbol period) = None
        \<and> fst (handle_analyze_risk s env symbol period)
            = RpcError (-32603) (''Failed to analyze risk for '' @ symbol)"
    if "fst (get_historical_data s env symbol period) = None
          \<or> fst (get_historical_data s env symbol period) = Some []"
  proof -
    from that ghd fetch_Some_nonempty [of env symbol period "[]"]
    have "fetch_data_from_api env symbol period = None" by auto
    with ar show ?thesis by (simp add: handle_analyze_risk_fst)
  qed
  moreover have "fst (analyze_risk s env symbol period) = Some (Fresh (CalcError msg))"
    if "fst (get_historical_data s env symbol period) = Some df \<and> df \<noteq> []
          \<and> db_calculate_risk_metrics df = CalcError msg"
    using that ghd ar by simp
  ultimately show ?thesis
    using analyze_risk_never_cached [of s env symbol period] by blast
next
  case (Some d)
  note ghd = get_historical_data_handle [OF Some, of env symbol period]
  note ar = analyze_risk_handle [OF Some, of env symbol period]
  show ?thesis
    using ghd ar by (simp add: handle_analyze_risk_fst)
qed

theorem C4_stale_not_served_witness:
  "(\<forall>a. fst (analyze_risk stale_server (example_db_env 10000 []) ''INFY'' ''1mo'')
           \<noteq> Some (FromCache a))
   \<and> fst (analyze_risk stale_server (example_db_env 10000 []) ''INFY'' ''1mo'') = None
   \<and> fst (handle_analyze_risk stale_server (example_db_env 10000 []) ''INFY'' ''1mo'')
       = RpcError (-32603) ''Failed to analyze risk for INFY''
   \<and> fst (analyze_risk mock_server
            (example_db_env 10000 [example_bar 1 100, example_bar 2 102]) ''INFY'' ''1mo'')
       = Some (Fresh (CalcError ''Insufficient data for risk calculation''))"
proof -
  have stale: "\<forall>a \<in> set (stored_analyses stale_server).
                 ad_symbol a = ''INFY'' \<and> ad_period a = ''1mo''
                 \<longrightarrow> ad_timestamp a < utcnow (example_db_env 10000 bars) - 3600" for bars
    by (simp add: stored_analyses_def stale_server_def stale_doc_def example_db_env_def)
  have none: "\<forall>a \<in> set (stored_analyses mock_server).
                 ad_symbol a = ''INFY'' \<and> ad_period a = ''1mo''
                 \<longrightarrow> ad_timestamp a < utcnow (example_db_env 10000 bars) - 3600" for bars
    by (simp add: stored_analyses_def mock_server_def)
  have two: "db_calculate_risk_metrics [example_bar 1 100, example_bar 2 102]
               = CalcError ''Insufficient data for risk calculation''"
    by (rule db_insufficient)
      (simp add: example_bar_def daily_returns_def dropna_def change_def)
  have g1: "fst (get_historical_data stale_server (example_db_env 10000 []) ''INFY'' ''1mo'') = None"
    by (simp add: get_historical_data_handle [OF stale_db])
  have g2: "fst (get_historical_data mock_server
                   (example_db_env 10000 [example_bar 1 100, example_bar 2 102]) ''INFY'' ''1mo'')
              = Some [example_bar 1 100, example_bar 2 102]"
    by (simp add: get_historical_data_mock [OF mock_db] two_fetch)
  show ?thesis
    using C4_stale_not_served [OF stale [of "[]"], of "[]" "[]"]
      C4_stale_not_served [OF none [of "[example_bar 1 100, example_bar 2 102]"],
        of "[example_bar 1 100, example_bar 2 102]" "''Insufficient data for risk calculation''"]
      g1 g2 two
    by simp
qed

subsection \<open>Resolving a price series\<close>

lemma one_price_db:
  "db one_price_server
     = Some \<lparr> historical_prices = [bar_doc (example_db_env 0 []) ''INFY'' (example_bar 10 104)],
              volatility_metrics = [] \<rparr>"
  by (simp add: one_price_server_def)

lemma one_price_stored:
  "map doc_bar (stored_prices one_price_server) = [example_bar 10 104]"
  by (simp add: stored_prices_def one_price_server_def bar_doc_def doc_bar_def example_bar_def)

lemma one_price_days_old:
  "days_old_of (example_db_env (10 * 86400 + 100) bars) [example_bar 10 104] = 0"
  by (simp add: days_old_of_def example_db_env_def example_bar_def)

text \<open>
  C8 (the code at the failing inputs). A server with a database that holds an INFY bar of
  the same day returns \<open>None\<close>, not the stored series, even though the quote source
  would return nine bars. A server built as \<open>MCPDatabaseServer()\<close> has no database:
  it returns the nine bars the quote source returns and stores nothing, and returns
  \<open>None\<close> when the quote source returns nothing. No call of
  \<open>_get_historical_data\<close> changes the server, and its result is \<open>None\<close> or the
  frame just fetched, never a stored series.
\<close>

theorem C8_store_never_used:
  "map doc_bar (stored_prices one_price_server) = [example_bar 10 104]
   \<and> days_old_of (example_db_env (10 * 86400 + 100) nine_bars) [example_bar 10 104] = 0
   \<and> get_historical_data one_price_server (example_db_env (10 * 86400 + 100) nine_bars)
        ''INFY'' ''1mo'' = (None, one_price_server)
   \<and> get_historical_data mock_server (example_db_env (10 * 86400 + 100) nine_bars)
        ''INFY'' ''1mo'' = (Some nine_bars, mock_server)
   \<and> get_historical_data mock_server (example_db_env (10 * 86400 + 100) [])
        ''INFY'' ''1mo'' = (None, mock_server)
   \<and> snd (get_historical_data s env symbol period) = s
   \<and> (fst (get_historical_data s env symbol period) = None
       \<or> fst (get_historical_data s env symbol period) = fetch_data_from_api env symbol period)"
proof -
  have "fst (get_historical_data s env symbol period) = None
       \<or> fst (get_historical_data s env symbol period) = fetch_data_from_api env symbol period"
    by (cases "db s") (simp_all add: get_historical_data_handle get_historical_data_mock)
  then show ?thesis
    using one_price_stored one_price_days_old [of nine_bars]
      get_historical_data_handle [OF one_price_db, of "example_db_env (10 * 86400 + 100) nine_bars"
        "''INFY''" "''1mo''"]
      get_historical_data_mock [OF mock_db, of "example_db_env (10 * 86400 + 100) nine_bars"
        "''INFY''" "''1mo''"]
      get_historical_data_mock [OF mock_db, of "example_db_env (10 * 86400 + 100) []"
        "''INFY''" "''1mo''"]
      nine_fetch [of "10 * 86400 + 100"] no_fetch [of "10 * 86400 + 100" "''INFY''" "''1mo''"]
      get_historical_data_server [of s env symbol period]
    by simp
qed

subsection \<open>Portfolio risk\<close>

lemma body_weights_mismatch:
  "length ws \<noteq> length symbols \<Longrightarrow>
     analyze_portfolio_risk_body env symbols (Some ws)
       = Inl (ValueError ''Weights must match number of symbols'')"
  by (simp add: analyze_portfolio_risk_body_def)

lemma body_default_weights:
  "symbols \<noteq> [] \<Longrightarrow>
     analyze_portfolio_risk_body env symbols None
       = analyze_portfolio_risk_body env symbols
           (Some (replicate (length symbols) (1 / real (length symbols))))"
  by (simp add: analyze_portfolio_risk_body_def)

lemma body_weights:
  "analyze_portfolio_risk_body env symbols (Some ws) = Inr (PortfolioDict r) \<Longrightarrow> pr_weights r = ws"
  by (auto simp add: analyze_portfolio_risk_body_def Let_def split: if_splits)

lemma result_weights_explicit:
  "result_weights (analyze_portfolio_risk env symbols (Some ws)) = None
   \<or> result_weights (analyze_portfolio_risk env symbols (Some ws)) = Some ws"
proof (cases "analyze_portfolio_risk_body env symbols (Some ws)")
  case (Inl e)
  then show ?thesis by (simp add: analyze_portfolio_risk_def)
next
  case (Inr res)
  then show ?thesis
    using body_weights [of env symbols ws]
    by (cases res) (simp_all add: analyze_portfolio_risk_def)
qed

lemma single_symbol_volatility:
  "calculate_portfolio_volatility env [symbol] weights = PVNone"
  by (simp add: calculate_portfolio_volatility_def Let_def split: option.splits)

lemma few_symbols_volatility:
  "length (filter (\<lambda>symbol. agent_get_historical_data env symbol ''1mo'' \<noteq> None)
             (remdups symbols)) < 2
   \<Longrightarrow> calculate_portfolio_volatility env symbols weights = PVNone"
proof -
  have "length (concat (map (\<lambda>symbol. case agent_get_historical_data env symbol ''1mo'' of
                                     None \<Rightarrow> []
                                   | Some historical \<Rightarrow> [(symbol, returns_series historical)]) xs))
        = length (filter (\<lambda>symbol. agent_get_historical_data env symbol ''1mo'' \<noteq> None) xs)"
    for xs
    by (induction xs) (auto split: option.splits)
  then show "length (filter (\<lambda>symbol. agent_get_historical_data env symbol ''1mo'' \<noteq> None)
             (remdups symbols)) < 2
   \<Longrightarrow> calculate_portfolio_volatility env symbols weights = PVNone"
    by (simp add: calculate_portfolio_volatility_def Let_def)
qed

lemma body_volatility:
  "analyze_portfolio_risk_body env symbols ws = Inr (PortfolioDict r) \<Longrightarrow>
     \<exists>weights. pr_portfolio_volatility r
        = round_volatility (calculate_portfolio_volatility (agent env) symbols weights)"
  by (auto simp add: analyze_portfolio_risk_body_def Let_def split: if_splits option.splits sum.splits)

lemma example_body:
  "result_weights (analyze_portfolio_risk example_portfolio_env [''INFY'', ''TCS''] None)
     = Some [1 / 2, 1 / 2]"
  by (simp add: analyze_portfolio_risk_def analyze_portfolio_risk_body_def Let_def
       example_portfolio_env_def)

lemma example_single:
  "result_volatility (analyze_portfolio_risk example_portfolio_env [''INFY''] (Some [1]))
     = Some PVNone"
  by (simp add: analyze_portfolio_risk_def analyze_portfolio_risk_body_def Let_def
       example_portfolio_env_def single_symbol_volatility round_volatility_def)

lemma nine_volatility_positive:
  "0 < db_volatility (the_metrics (db_calculate_risk_metrics nine_bars))"
proof -
  have "0 < variance 1 [1 / 50, - (1 / 102), 4 / 101, - (2 / 105), 5 / 103, - (1 / 54), 2 / 53, - (3 / 110)]"
    by (simp add: variance_def mean_def)
  then have "0 < std [1 / 50, - (1 / 102), 4 / 101, - (2 / 105), 5 / 103, - (1 / 54), 2 / 53, - (3 / 110)] * sqrt 252"
    by (simp add: std_def)
  moreover have "db_volatility (the_metrics (db_calculate_risk_metrics nine_bars))
      = std [1 / 50, - (1 / 102), 4 / 101, - (2 / 105), 5 / 103, - (1 / 54), 2 / 53, - (3 / 110)] * sqrt 252"
    by (simp add: db_calculate_risk_metrics_def Let_def nine_closes daily_returns_def dropna_def
      change_def max_drawdown_of_def cumprod_def quotient_def series_min_def)
  ultimately show ?thesis by simp
qed

lemma single_symbol_record:
  "result_volatility (analyze_portfolio_risk env [symbol] ws) = None
   \<or> result_volatility (analyze_portfolio_risk env [symbol] ws) = Some PVNone"
proof (cases "analyze_portfolio_risk_body env [symbol] ws")
  case (Inl e)
  then show ?thesis by (simp add: analyze_portfolio_risk_def)
next
  case (Inr res)
  show ?thesis
  proof (cases res)
    case EmptyDict
    with Inr show ?thesis by (simp add: analyze_portfolio_risk_def)
  next
    case (PortfolioDict r)
    with Inr body_volatility [of env "[symbol]" ws r]
    have "pr_portfolio_volatility r = PVNone"
      by (auto simp add: single_symbol_volatility round_volatility_def)
    with Inr PortfolioDict show ?thesis by (simp add: analyze_portfolio_risk_def)
  qed
qed

text \<open>
  C9 (as stated, refuted). Two symbols with one weight: \<open>analyze_portfolio_risk\<close>
  returns the empty dictionary, the very value it returns for a well-formed call whose
  symbol has no risk data. The caller sees no error, typed or otherwise.
\<close>

theorem C9_mismatch_counterexample:
  "analyze_portfolio_risk example_portfolio_env [''INFY'', ''TCS''] (Some [1]) = EmptyDict
   \<and> analyze_portfolio_risk example_portfolio_env [''TCS''] (Some [1]) = EmptyDict"
  by (simp add: analyze_portfolio_risk_def analyze_portfolio_risk_body_def Let_def
       example_portfolio_env_def)

text \<open>
  C9 (amended). For every call in which the number of weights differs from the number of
  symbols, the body of \<open>analyze_portfolio_risk\<close> raises
  \<open>ValueError("Weights must match number of symbols")\<close>, the function's own
  \<open>except\<close> branch catches it, and the caller receives the empty dictionary.
\<close>

theorem C9_mismatch_returns_empty:
  "length ws \<noteq> length symbols \<longrightarrow>
     analyze_portfolio_risk_body env symbols (Some ws)
       = Inl (ValueError ''Weights must match number of symbols'')
     \<and> analyze_portfolio_risk env symbols (Some ws) = EmptyDict"
  using body_weights_mismatch [of ws symbols env]
  by (simp add: analyze_portfolio_risk_def)

theorem C9_mismatch_returns_empty_witness:
  "analyze_portfolio_risk_body example_portfolio_env [''INFY'', ''TCS''] (Some [1])
     = Inl (ValueError ''Weights must match number of symbols'')
   \<and> analyze_portfolio_risk example_portfolio_env [''INFY'', ''TCS''] (Some [1]) = EmptyDict"
  using C9_mismatch_returns_empty [of "[1]" "[''INFY'', ''TCS'']" example_portfolio_env]
  by simp

text \<open>
  C10. For a non-empty list of symbols, \<open>analyze_portfolio_risk\<close> without weights
  returns what it returns with the explicit weights \<open>1 / len(symbols)\<close> for each symbol,
  in the same environment; when it returns a portfolio dictionary, the \<open>weights\<close> entry
  is that list of equal weights.
\<close>

theorem C10_default_weights:
  "symbols \<noteq> [] \<longrightarrow>
     analyze_portfolio_risk env symbols None
       = analyze_portfolio_risk env symbols
           (Some (replicate (length symbols) (1 / real (length symbols))))
     \<and> (analyze_portfolio_risk env symbols None \<noteq> EmptyDict
          \<longrightarrow> result_weights (analyze_portfolio_risk env symbols None)
                = Some (replicate (length symbols) (1 / real (length symbols))))"
proof
  assume ne: "symbols \<noteq> []"
  let ?ws = "replicate (length symbols) (1 / real (length symbols))"
  have eq: "analyze_portfolio_risk env symbols None = analyze_portfolio_risk env symbols (Some ?ws)"
    using body_default_weights [OF ne, of env] by (simp add: analyze_portfolio_risk_def)
  have "result_weights (analyze_portfolio_risk env symbols None) = Some ?ws"
    if "analyze_portfolio_risk env symbols None \<noteq> EmptyDict"
  proof -
    from that eq have "result_weights (analyze_portfolio_risk env symbols (Some ?ws)) \<noteq> None"
      by (cases "analyze_portfolio_risk env symbols (Some ?ws)") simp_all
    with result_weights_explicit [of env symbols ?ws] eq show ?thesis by simp
  qed
  with eq show "analyze_portfolio_risk env symbols None = analyze_portfolio_risk env symbols (Some ?ws)
     \<and> (analyze_portfolio_risk env symbols None \<noteq> EmptyDict
          \<longrightarrow> result_weights (analyze_portfolio_risk env symbols None) = Some ?ws)"
    by blast
qed

theorem C10_default_weights_witness:
  "analyze_portfolio_risk example_portfolio_env [''INFY'', ''TCS''] None
     = analyze_portfolio_risk example_portfolio_env [''INFY'', ''TCS''] (Some [1 / 2, 1 / 2])
   \<and> result_weights (analyze_portfolio_risk example_portfolio_env [''INFY'', ''TCS''] None)
       = Some [1 / 2, 1 / 2]"
proof -
  have a: "[''INFY'', ''TCS''] \<noteq> []" by simp
  have b: "analyze_portfolio_risk example_portfolio_env [''INFY'', ''TCS''] None \<noteq> EmptyDict"
    using example_body by (cases "analyze_portfolio_risk example_portfolio_env [''INFY'', ''TCS''] None") simp_all
  have c: "replicate (length [''INFY'', ''TCS'']) (1 / real (length [''INFY'', ''TCS'']))
             = [1 / 2, 1 / 2 :: real]"
    by (simp add: numeral_2_eq_2)
  show ?thesis
    using C10_default_weights [of "[''INFY'', ''TCS'']" example_portfolio_env] a b
    unfolding c by blast
qed

text \<open>
  C6 (as stated, refuted). One symbol with weight 1.0: INFY has a price history and a
  positive annualized volatility of its own, and the portfolio volatility is \<open>None\<close>,
  both as \<open>_calculate_portfolio_volatility\<close> returns it and in the dictionary of
  \<open>analyze_portfolio_risk\<close>.
\<close>

theorem C6_single_symbol_counterexample:
  "calculate_portfolio_volatility (example_agent_env nine_bars) [''INFY''] [1] = PVNone
   \<and> result_volatility (analyze_portfolio_risk example_portfolio_env [''INFY''] (Some [1]))
       = Some PVNone
   \<and> agent_get_historical_data (example_agent_env nine_bars) ''INFY'' ''1mo''
       = Some (map to_row nine_bars)
   \<and> 0 < db_volatility (the_metrics (db_calculate_risk_metrics nine_bars))"
  using single_symbol_volatility [of "example_agent_env nine_bars" "''INFY''" "[1]"]
    example_single nine_agent_hist nine_volatility_positive
  by simp

text \<open>
  C6 (amended). Portfolio aggregation over a single symbol has no portfolio volatility:
  \<open>_calculate_portfolio_volatility\<close> returns \<open>None\<close> whenever fewer than two distinct
  symbols have a price history, whatever the weights, and the dictionary of
  \<open>analyze_portfolio_risk\<close> for a single symbol, if it is not empty, has
  \<open>portfolio_volatility = None\<close>.
\<close>

theorem C6_single_symbol_no_volatility:
  "calculate_portfolio_volatility aenv [symbol] weights = PVNone
   \<and> (length (filter (\<lambda>symbol. agent_get_historical_data aenv symbol ''1mo'' \<noteq> None)
                (remdups symbols)) < 2
        \<longrightarrow> calculate_portfolio_volatility aenv symbols weights = PVNone)
   \<and> (result_volatility (analyze_portfolio_risk env [symbol] ws) = None
        \<or> result_volatility (analyze_portfolio_risk env [symbol] ws) = Some PVNone)"
  using single_symbol_volatility [of aenv symbol weights]
    few_symbols_volatility [of aenv symbols weights]
    single_symbol_record [of env symbol ws]
  by blast

theorem C6_single_symbol_no_volatility_witness:
  "calculate_portfolio_volatility (example_agent_env nine_bars) [''INFY''] [1] = PVNone
   \<and> calculate_portfolio_volatility (example_agent_env nine_bars) [''INFY'', ''TCS'', ''INFY'']
        [1 / 2, 1 / 4, 1 / 4] = PVNone"
proof -
  have "agent_get_historical_data (example_agent_env nine_bars) ''TCS'' ''1mo'' = None"
    by (simp add: agent_get_historical_data_def example_agent_env_def)
  then have "length (filter (\<lambda>symbol. agent_get_historical_data (example_agent_env nine_bars)
                                symbol ''1mo'' \<noteq> None)
                (remdups [''INFY'', ''TCS'', ''INFY''])) < 2"
    by simp
  then show ?thesis
    using C6_single_symbol_no_volatility
            [of "example_agent_env nine_bars" "''INFY''" "[1]" "[''INFY'', ''TCS'', ''INFY'']"
                example_portfolio_env "None"]
          C6_single_symbol_no_volatility
            [of "example_agent_env nine_bars" "''INFY''" "[1 / 2, 1 / 4, 1 / 4]"
                "[''INFY'', ''TCS'', ''INFY'']" example_portfolio_env "None"]
    by blast
qed

subsection \<open>Beta\<close>

lemma filter_key_length:
  "distinct (map fst s) \<Longrightarrow> d \<in> set (map fst s) \<Longrightarrow>
     length (filter (\<lambda>(d', v). d' = d) s) = 1"
proof (induction s)
  case Nil
  then show ?case by simp
next
  case (Cons p s)
  obtain d' v where p: "p = (d', v)" by (cases p)
  show ?case
  proof (cases "d' = d")
    case True
    with Cons.prems p have "d \<notin> set (map fst s)" by simp
    then have "filter (\<lambda>(d', v). d' = d) s = []"
      by (force simp add: filter_empty_conv)
    with True p show ?thesis by simp
  next
    case False
    with Cons p show ?thesis by simp
  qed
qed

lemma length_loc:
  "distinct (map fst s) \<Longrightarrow> set labels \<subseteq> set (map fst s) \<Longrightarrow>
     length (loc s labels) = length labels"
proof (induction labels)
  case Nil
  then show ?case by (simp add: loc_def)
next
  case (Cons d labels)
  then have "length (filter (\<lambda>(d', v). d' = d) s) = 1"
    using filter_key_length [of s d] by simp
  moreover have "length (loc s labels) = length labels"
    using Cons by simp
  ultimately show ?case by (simp add: loc_def)
qed

lemma index_intersection_subset:
  "set (index_intersection xs ys) \<subseteq> set xs" "set (index_intersection xs ys) \<subseteq> set ys"
  by (auto simp add: index_intersection_def)

lemma aligned_same_length:
  assumes "distinct (map fst stock)" "distinct (map fst nifty)"
  shows "length (loc stock (index_intersection (map fst stock) (map fst nifty)))
         = length (loc nifty (index_intersection (map fst stock) (map fst nifty)))"
  using length_loc [OF assms(1) index_intersection_subset(1) [of "map fst stock" "map fst nifty"]]
    length_loc [OF assms(2) index_intersection_subset(2) [of "map fst stock" "map fst nifty"]]
  by simp

lemma beta_few_dates:
  "length (index_intersection (map fst stock) (map fst nifty)) < 10 \<Longrightarrow>
     beta_of_series stock nifty = None"
  by (simp add: beta_of_series_def Let_def)

lemma beta_zero_variance:
  "finite_vals (loc nifty (index_intersection (map fst stock) (map fst nifty))) = Some ms \<Longrightarrow>
   variance 0 ms = 0 \<Longrightarrow> beta_of_series stock nifty = None"
  by (simp add: beta_of_series_def beta_of_aligned_def Let_def)

lemma beta_value:
  assumes "distinct (map fst stock)" "distinct (map fst nifty)"
      and "10 \<le> length (index_intersection (map fst stock) (map fst nifty))"
      and "finite_vals (loc stock (index_intersection (map fst stock) (map fst nifty))) = Some ss"
      and "finite_vals (loc nifty (index_intersection (map fst stock) (map fst nifty))) = Some ms"
      and "variance 0 ms \<noteq> 0"
  shows "beta_of_series stock nifty = Some (Val (cov ss ms / variance 0 ms))"
  using assms(3-6) aligned_same_length [OF assms(1,2)]
  by (simp add: beta_of_series_def beta_of_aligned_def Let_def)

lemma changes_constant:
  "\<forall>x \<in> set cs. x = c \<Longrightarrow> set (changes c cs) \<subseteq> {Val 0, NaN}"
  by (induction cs) (auto simp add: change_def)

lemma pct_change_constant:
  "\<forall>x \<in> set cs. x = c \<Longrightarrow> set (pct_change cs) \<subseteq> {Val 0, NaN}"
  using changes_constant [of _ c] by (cases cs) auto

lemma returns_series_constant:
  assumes "\<forall>b \<in> set hist. Close b = c"
  shows "snd ` set (returns_series hist) \<subseteq> {Val 0}"
proof -
  have "set (pct_change (map Close hist)) \<subseteq> {Val 0, NaN}"
    by (rule pct_change_constant [of _ c]) (use assms in simp)
  then show ?thesis
    by (auto simp add: returns_series_def dest!: set_zip_rightD)
qed

lemma loc_values: "set (loc s labels) \<subseteq> snd ` set s"
  by (auto simp add: loc_def)

lemma finite_vals_zeros:
  "set vs \<subseteq> {Val 0} \<Longrightarrow> \<exists>ms. finite_vals vs = Some ms \<and> set ms \<subseteq> {0}"
proof (induction vs)
  case Nil
  then show ?case by simp
next
  case (Cons v vs)
  then have "v = Val 0" by simp
  moreover from Cons obtain ms where "finite_vals vs = Some ms" "set ms \<subseteq> {0}" by auto
  ultimately show ?case by simp
qed

lemma sum_list_zeros: "set ms \<subseteq> {0::real} \<Longrightarrow> sum_list ms = 0"
  by (induction ms) auto

lemma variance_zeros: "set ms \<subseteq> {0::real} \<Longrightarrow> variance 0 ms = 0"
proof -
  assume z: "set ms \<subseteq> {0}"
  then have "mean ms = 0" by (simp add: mean_def sum_list_zeros)
  moreover have "set (map (\<lambda>x. (x - 0) * (x - 0)) ms) \<subseteq> {0}" using z by auto
  ultimately show ?thesis
    using sum_list_zeros [of "map (\<lambda>x. (x - 0) * (x - 0)) ms"]
    by (simp add: variance_def)
qed

lemma snd_aware: "snd ` set (aware series) = snd ` set series"
  by (force simp add: aware_def)

lemma beta_constant_series:
  assumes "\<forall>b \<in> set hist. Close b = c"
  shows "beta_of_series stock (aware (returns_series hist)) = None"
proof -
  let ?nifty = "aware (returns_series hist)"
  let ?common = "index_intersection (map fst stock) (map fst ?nifty)"
  have "set (loc ?nifty ?common) \<subseteq> {Val 0}"
    using loc_values [of ?nifty ?common] returns_series_constant [OF assms]
    unfolding snd_aware by blast
  from finite_vals_zeros [OF this] obtain ms
    where "finite_vals (loc ?nifty ?common) = Some ms" "set ms \<subseteq> {0}"
    by blast
  then show ?thesis
    using beta_zero_variance [of ?nifty stock ms] variance_zeros [of ms]
    by simp
qed

lemma calculate_beta_constant:
  assumes "yf_history env ''^NSEI'' ''1mo'' = Some hist" "\<forall>b \<in> set hist. Close b = c"
  shows "calculate_beta env stock = None"
  using assms(1) beta_constant_series [OF assms(2), of stock]
  by (simp add: calculate_beta_def)

lemma calculate_beta_series:
  "yf_history env ''^NSEI'' ''1mo'' = Some hist \<Longrightarrow> hist \<noteq> [] \<Longrightarrow>
     calculate_beta env stock = beta_of_series stock (aware (returns_series hist))"
  by (simp add: calculate_beta_def)

lemma naive_aware_disjoint:
  "index_intersection (map fst (naive xs)) (map fst (aware ys)) = []"
  by (auto simp add: index_intersection_def naive_def aware_def filter_empty_conv)

lemma calculate_beta_naive: "calculate_beta env (naive series) = None"
  by (simp add: calculate_beta_def beta_of_series_def naive_aware_disjoint Let_def
       split: option.splits)

lemma eleven_series:
  "returns_series eleven_bars =
     zip [2 * 86400, 3 * 86400, 4 * 86400, 5 * 86400, 6 * 86400, 7 * 86400, 8 * 86400,
          9 * 86400, 10 * 86400, 11 * 86400] (map Val eleven_returns)"
  by (simp add: returns_series_def eleven_bars_def example_bar_def change_def eleven_returns_def)

lemma eleven_aware:
  "aware (returns_series eleven_bars) =
     zip [Aware (2 * 86400), Aware (3 * 86400), Aware (4 * 86400), Aware (5 * 86400),
          Aware (6 * 86400), Aware (7 * 86400), Aware (8 * 86400), Aware (9 * 86400),
          Aware (10 * 86400), Aware (11 * 86400)] (map Val eleven_returns)"
  by (simp add: eleven_series aware_def eleven_returns_def)

lemma eleven_common:
  "index_intersection (map fst (aware (returns_series eleven_bars)))
       (map fst (aware (returns_series eleven_bars)))
     = [Aware (2 * 86400), Aware (3 * 86400), Aware (4 * 86400), Aware (5 * 86400),
        Aware (6 * 86400), Aware (7 * 86400), Aware (8 * 86400), Aware (9 * 86400),
        Aware (10 * 86400), Aware (11 * 86400)]"
  by (simp add: eleven_aware index_intersection_def eleven_returns_def)

lemma eleven_loc:
  "finite_vals (loc (aware (returns_series eleven_bars))
     (index_intersection (map fst (aware (returns_series eleven_bars)))
        (map fst (aware (returns_series eleven_bars))))) = Some eleven_returns"
  unfolding eleven_common by (simp add: eleven_aware loc_def eleven_returns_def)

lemma eleven_variance: "variance 0 eleven_returns \<noteq> 0"
  by (simp add: variance_def mean_def eleven_returns_def)

lemma nine_series_length: "length (aware (returns_series nine_bars)) = 8"
  by (simp add: aware_def length_returns_series nine_returns_length)

lemma db_beta_of_volatility:
  "db_calculate_risk_metrics df = CalcMetrics m \<Longrightarrow>
     db_beta m = (if db_volatility m = 0 then None else Some (0.7 * (db_volatility m / 0.20)))"
  by (auto simp add: db_calculate_risk_metrics_def calculate_beta_simplified_def Let_def
       split: if_splits option.splits fval.splits)

text \<open>
  C5 (as stated, refuted on the DB-server path). The nine-bar series has 8 returns, so
  fewer than 10 dates can align with any benchmark; the DB server's metrics carry a beta
  all the same, 0.7 times the instrument's annualized volatility over 0.20. No benchmark
  series takes part in it.
\<close>

theorem C5_db_path_counterexample:
  "length (daily_returns (map Close nine_bars)) = 8
   \<and> is_CalcMetrics (db_calculate_risk_metrics nine_bars)
   \<and> db_beta (the_metrics (db_calculate_risk_metrics nine_bars))
       = Some (0.7 * (db_volatility (the_metrics (db_calculate_risk_metrics nine_bars)) / 0.20))
   \<and> 0 < db_volatility (the_metrics (db_calculate_risk_metrics nine_bars))"
proof -
  have "db_calculate_risk_metrics nine_bars
          = CalcMetrics (the_metrics (db_calculate_risk_metrics nine_bars))"
    using nine_metrics by simp
  from db_beta_of_volatility [OF this] nine_volatility_positive
  have "db_beta (the_metrics (db_calculate_risk_metrics nine_bars))
       = Some (0.7 * (db_volatility (the_metrics (db_calculate_risk_metrics nine_bars)) / 0.20))"
    by simp
  then show ?thesis
    using nine_returns_length nine_metrics nine_volatility_positive by simp
qed

text \<open>
  C5 (amended). On the direct path (\<open>RiskAgent._calculate_beta\<close>), for every pair of
  instrument and benchmark return series: beta is absent when fewer than 10 dates align
  and when the variance of the aligned benchmark series is 0, and otherwise (finite
  values on distinct dates) it is the covariance of the aligned series (divisor
  \<open>n - 1\<close>) over the variance of the aligned benchmark (divisor \<open>n\<close>); the
  benchmark is the NIFTY history, and a constant benchmark always gives an absent beta.
  On the DB-server path beta is 0.7 times the instrument's own annualized volatility over
  0.20, absent only when that volatility is zero.
\<close>

theorem C5_beta_by_path:
  assumes "common = index_intersection (map fst stock) (map fst nifty)"
  shows "(length common < 10 \<longrightarrow> beta_of_series stock nifty = None)
   \<and> (finite_vals (loc nifty common) = Some ms \<and> variance 0 ms = 0
        \<longrightarrow> beta_of_series stock nifty = None)
   \<and> (distinct (map fst stock) \<and> distinct (map fst nifty) \<and> 10 \<le> length common
        \<and> finite_vals (loc stock common) = Some ss \<and> finite_vals (loc nifty common) = Some ms
        \<and> variance 0 ms \<noteq> 0
        \<longrightarrow> beta_of_series stock nifty = Some (Val (cov ss ms / variance 0 ms)))
   \<and> (yf_history env ''^NSEI'' ''1mo'' = Some hist \<and> hist \<noteq> []
        \<longrightarrow> calculate_beta env stock = beta_of_series stock (aware (returns_series hist)))
   \<and> (yf_history env ''^NSEI'' ''1mo'' = Some hist \<and> (\<forall>b \<in> set hist. Close b = c)
        \<longrightarrow> calculate_beta env stock = None)
   \<and> (db_calculate_risk_metrics df = CalcMetrics m
        \<longrightarrow> db_beta m = (if db_volatility m = 0 then None
                         else Some (0.7 * (db_volatility m / 0.20))))"
  using beta_few_dates [of stock nifty] beta_zero_variance [of nifty stock ms]
    beta_value [of stock nifty ss ms] calculate_beta_series [of env hist stock]
    calculate_beta_constant [of env hist c stock] db_beta_of_volatility [of df m]
  unfolding assms by blast

theorem C5_beta_by_path_witness:
  "beta_of_series (aware (returns_series nine_bars)) (aware (returns_series nine_bars)) = None
   \<and> beta_of_series (aware (returns_series eleven_bars)) (aware (returns_series eleven_bars))
       = Some (Val (cov eleven_returns eleven_returns / variance 0 eleven_returns))
   \<and> calculate_beta (nifty_env eleven_bars) (aware (returns_series eleven_bars))
       = beta_of_series (aware (returns_series eleven_bars)) (aware (returns_series eleven_bars))
   \<and> calculate_beta (nifty_env constant_bars) (aware (returns_series eleven_bars)) = None
   \<and> db_beta (the_metrics (db_calculate_risk_metrics nine_bars))
       = Some (0.7 * (db_volatility (the_metrics (db_calculate_risk_metrics nine_bars)) / 0.20))"
proof -
  let ?nine = "aware (returns_series nine_bars)"
  let ?eleven = "aware (returns_series eleven_bars)"
  have few: "length (index_intersection (map fst ?nine) (map fst ?nine)) < 10"
  proof -
    have "length (index_intersection (map fst ?nine) (map fst ?nine)) \<le> length (map fst ?nine)"
      unfolding index_intersection_def
      by (rule order_trans [OF length_remdups_leq]) simp
    then show ?thesis by (simp add: nine_series_length)
  qed
  have dist: "distinct (map fst ?eleven)"
    by (simp add: eleven_aware eleven_returns_def)
  have ten: "10 \<le> length (index_intersection (map fst ?eleven) (map fst ?eleven))"
    by (simp add: eleven_common)
  have h1: "yf_history (nifty_env eleven_bars) ''^NSEI'' ''1mo'' = Some eleven_bars"
    and h2: "yf_history (nifty_env constant_bars) ''^NSEI'' ''1mo'' = Some constant_bars"
    by (simp_all add: nifty_env_def)
  have ne: "eleven_bars \<noteq> []" by (simp add: eleven_bars_def)
  have const: "\<forall>b \<in> set constant_bars. Close b = 50"
    by (simp add: constant_bars_def example_bar_def)
  have m: "db_calculate_risk_metrics nine_bars
             = CalcMetrics (the_metrics (db_calculate_risk_metrics nine_bars))"
    using nine_metrics by simp
  have p1: "beta_of_series ?nine ?nine = None"
    using C5_beta_by_path [OF refl, of ?nine ?nine] few by blast
  have p2: "beta_of_series ?eleven ?eleven
              = Some (Val (cov eleven_returns eleven_returns / variance 0 eleven_returns))"
    using C5_beta_by_path [OF refl, of ?eleven ?eleven eleven_returns eleven_returns]
      dist ten eleven_loc eleven_variance
    by blast
  have p3: "calculate_beta (nifty_env eleven_bars) ?eleven = beta_of_series ?eleven ?eleven"
    using C5_beta_by_path [OF refl, of ?eleven ?eleven _ _ "nifty_env eleven_bars" eleven_bars]
      h1 ne
    by blast
  have p4: "calculate_beta (nifty_env constant_bars) ?eleven = None"
    using C5_beta_by_path [OF refl, of ?eleven ?eleven _ _ "nifty_env constant_bars"
        constant_bars 50]
      h2 const
    by blast
  have p5: "db_beta (the_metrics (db_calculate_risk_metrics nine_bars))
       = Some (0.7 * (db_volatility (the_metrics (db_calculate_risk_metrics nine_bars)) / 0.20))"
    using C5_beta_by_path [OF refl, of ?nine ?nine _ _ _ _ _ nine_bars
        "the_metrics (db_calculate_risk_metrics nine_bars)"]
      m nine_volatility_positive
    by simp
  from p1 p2 p3 p4 p5 show ?thesis by blast
qed

end
